theory Spec2Isabelle
  imports Main "HOL-Library.Word" "HOL-Library.Char_ord"
begin

section \<open>Byte strings\<close>

text \<open>
  A Go \<^verbatim>\<open>string\<close> and a Go \<^verbatim>\<open>[]byte\<close> are sequences of bytes; both are modelled
  as \<^typ>\<open>string\<close> (a list of 8-bit characters). A \<^verbatim>\<open>nil\<close> slice and an empty
  slice are both the empty list: the code only ever asks for their length. The one place
  where the library tells them apart is \<^verbatim>\<open>json.RawMessage.MarshalJSON\<close>; see the
  record of responses below.
\<close>

definition byte :: "char \<Rightarrow> nat" where
  "byte c = of_char c"

definition quote_ch :: char where
  "quote_ch = CHR 0x22"

definition backslash :: char where
  "backslash = CHR 0x5C"

definition isDigit :: "char \<Rightarrow> bool" where
  "isDigit c = (CHR ''0'' \<le> c \<and> c \<le> CHR ''9'')"

definition hex :: "nat \<Rightarrow> char" where
  "hex n = ''0123456789abcdef'' ! (n mod 16)"

function show_nat :: "nat \<Rightarrow> string" where
  "show_nat n = (if n < 10 then [char_of (48 + n)] else show_nat (n div 10) @ [char_of (48 + n mod 10)])"
  by pat_completeness auto
termination
  by (relation "measure id") auto

definition show_int :: "int \<Rightarrow> string" where
  \<comment> \<open>\<^verbatim>\<open>%d\<close> of \<^verbatim>\<open>fmt\<close> and \<^verbatim>\<open>strconv.AppendInt(_, _, 10)\<close>\<close>
  "show_int i = (if i < 0 then CHR ''-'' # show_nat (nat (- i)) else show_nat (nat i))"

section \<open>The error-code catalog\<close>

type_synonym int64 = "64 word"

type_synonym ErrorConst = int64

definition ParseErr :: ErrorConst where "ParseErr = - 32700"
definition InvalidRequest :: ErrorConst where "InvalidRequest = - 32600"
definition MethodNotFound :: ErrorConst where "MethodNotFound = - 32601"
definition InvalidParams :: ErrorConst where "InvalidParams = - 32602"
definition InternalError :: ErrorConst where "InternalError = - 32603"
definition InvalidInput :: ErrorConst where "InvalidInput = - 32000"
definition ResourceNotFound :: ErrorConst where "ResourceNotFound = - 32001"
definition ResourceUnavailable :: ErrorConst where "ResourceUnavailable = - 32002"
definition TransactionRejected :: ErrorConst where "TransactionRejected = - 32003"
definition MethodNotSupported :: ErrorConst where "MethodNotSupported = - 32004"
definition LimitExceeded :: ErrorConst where "LimitExceeded = - 32005"
definition JSONRPCVersionNotSupported :: ErrorConst where "JSONRPCVersionNotSupported = - 32006"
definition UserRejectedRequest :: ErrorConst where "UserRejectedRequest = 4001"
definition Unauthorized :: ErrorConst where "Unauthorized = 4100"
definition UnsupportedMethod :: ErrorConst where "UnsupportedMethod = 4200"
definition Disconnected :: ErrorConst where "Disconnected = 4900"
definition ChainDisconnected :: ErrorConst where "ChainDisconnected = 4901"

definition ErrorConst_Code :: "ErrorConst \<Rightarrow> int64" where
  "ErrorConst_Code c = c"

definition ErrorConst_Message :: "ErrorConst \<Rightarrow> string" where
  "ErrorConst_Message c =
    (if c = ParseErr then ''Parse error''
     else if c = InvalidRequest then ''Invalid Request''
     else if c = MethodNotFound then ''Method not found''
     else if c = InvalidParams then ''Invalid params''
     else if c = InternalError then ''Internal error''
     else if c = InvalidInput then ''Invalid input''
     else if c = ResourceNotFound then ''Resource not found''
     else if c = ResourceUnavailable then ''Resource unavailable''
     else if c = TransactionRejected then ''Transaction rejected''
     else if c = MethodNotSupported then ''Method not supported''
     else if c = LimitExceeded then ''Limit exceeded''
     else if c = JSONRPCVersionNotSupported then ''JSON-RPC version not supported''
     else if c = UserRejectedRequest then ''User Rejected Request''
     else if c = Unauthorized then ''Unauthorized''
     else if c = UnsupportedMethod then ''Unsupported Method''
     else if c = Disconnected then ''Disconnected''
     else if c = ChainDisconnected then ''Chain Disconnected''
     else ''Non-standard error-code '' @ show_int (sint (ErrorConst_Code c)))"

definition IsServerError :: "ErrorConst \<Rightarrow> bool" where
  \<comment> \<open>\<^verbatim>\<open>return c < -32000 && c > -32099\<close>, on signed 64-bit integers\<close>
  "IsServerError c = (c <s - 32000 \<and> - 32099 <s c)"

section \<open>The JSON scanner of the standard library\<close>

text \<open>
  The repository calls \<^verbatim>\<open>json.Valid\<close>, \<^verbatim>\<open>json.Marshal\<close> and
  \<^verbatim>\<open>json.Unmarshal\<close> of Go's \<^verbatim>\<open>encoding/json\<close>. All three are driven by one
  byte-at-a-time scanner: a current step function and a stack of parse states. The
  scanner is embedded here state by state; the stack has its top at the head of the list.
  The scanner's \<^verbatim>\<open>err\<close> field is set exactly when its step becomes
  \<^verbatim>\<open>stateError\<close>, and \<^verbatim>\<open>endTop\<close> exactly when its step becomes
  \<^verbatim>\<open>stateEndTop\<close>, so the pair of step and stack is the whole state.
\<close>

datatype parseState = parseObjectKey | parseObjectValue | parseArrayValue

datatype scanStep =
    stateBeginValueOrEmpty | stateBeginValue | stateBeginStringOrEmpty | stateBeginString
  | stateEndValue | stateEndTop
  | stateInString | stateInStringEsc
  | stateInStringEscU | stateInStringEscU1 | stateInStringEscU12 | stateInStringEscU123
  | stateNeg | state1 | state0 | stateDot | stateDot0 | stateE | stateESign | stateE0
  | stateT | stateTr | stateTru | stateF | stateFa | stateFal | stateFals
  | stateN | stateNu | stateNul
  | stateError

datatype opcode =
    scanContinue | scanBeginLiteral | scanBeginObject | scanObjectKey | scanObjectValue
  | scanEndObject | scanBeginArray | scanArrayValue | scanEndArray | scanSkipSpace
  | scanEnd | scanError

type_synonym scanner = "scanStep \<times> parseState list"

definition maxNestingDepth :: nat where
  "maxNestingDepth = 10000"

definition isSpace :: "char \<Rightarrow> bool" where
  "isSpace c = (c = CHR '' '' \<or> c = CHR 0x09 \<or> c = CHR 0x0D \<or> c = CHR 0x0A)"

definition isHex :: "char \<Rightarrow> bool" where
  "isHex c = (isDigit c \<or> (CHR ''a'' \<le> c \<and> c \<le> CHR ''f'') \<or> (CHR ''A'' \<le> c \<and> c \<le> CHR ''F''))"

definition scan_fail :: "parseState list \<Rightarrow> opcode \<times> scanner" where
  \<comment> \<open>\<^verbatim>\<open>s.error(c, _)\<close>\<close>
  "scan_fail ps = (scanError, (stateError, ps))"

definition pushParseState :: "parseState list \<Rightarrow> parseState \<Rightarrow> scanStep \<Rightarrow> opcode \<Rightarrow> opcode \<times> scanner" where
  "pushParseState ps newParseState next successState =
    (if length (newParseState # ps) \<le> maxNestingDepth
     then (successState, (next, newParseState # ps))
     else scan_fail (newParseState # ps))"

definition popParseState :: "parseState list \<Rightarrow> scanner" where
  "popParseState ps = (if tl ps = [] then (stateEndTop, tl ps) else (stateEndValue, tl ps))"

definition stateEndTop_fn :: "parseState list \<Rightarrow> char \<Rightarrow> opcode \<times> scanner" where
  \<comment> \<open>a byte other than white space records the error, yet the step still returns \<^verbatim>\<open>scanEnd\<close>\<close>
  "stateEndTop_fn ps c = (if \<not> isSpace c then (scanEnd, (stateError, ps)) else (scanEnd, (stateEndTop, ps)))"

fun stateEndValue_fn :: "parseState list \<Rightarrow> char \<Rightarrow> opcode \<times> scanner" where
  "stateEndValue_fn [] c = stateEndTop_fn [] c"
| "stateEndValue_fn (p # ps) c =
    (if isSpace c then (scanSkipSpace, (stateEndValue, p # ps))
     else case p of
       parseObjectKey \<Rightarrow>
         if c = CHR '':'' then (scanObjectKey, (stateBeginValue, parseObjectValue # ps))
         else scan_fail (p # ps)
     | parseObjectValue \<Rightarrow>
         if c = CHR '','' then (scanObjectValue, (stateBeginString, parseObjectKey # ps))
         else if c = CHR ''}'' then (scanEndObject, popParseState (p # ps))
         else scan_fail (p # ps)
     | parseArrayValue \<Rightarrow>
         if c = CHR '','' then (scanArrayValue, (stateBeginValue, p # ps))
         else if c = CHR '']'' then (scanEndArray, popParseState (p # ps))
         else scan_fail (p # ps))"

definition stateBeginValue_fn :: "parseState list \<Rightarrow> char \<Rightarrow> opcode \<times> scanner" where
  "stateBeginValue_fn ps c =
    (if isSpace c then (scanSkipSpace, (stateBeginValue, ps))
     else if c = CHR ''{'' then pushParseState ps parseObjectKey stateBeginStringOrEmpty scanBeginObject
     else if c = CHR ''['' then pushParseState ps parseArrayValue stateBeginValueOrEmpty scanBeginArray
     else if c = quote_ch then (scanBeginLiteral, (stateInString, ps))
     else if c = CHR ''-'' then (scanBeginLiteral, (stateNeg, ps))
     else if c = CHR ''0'' then (scanBeginLiteral, (state0, ps))
     else if c = CHR ''t'' then (scanBeginLiteral, (stateT, ps))
     else if c = CHR ''f'' then (scanBeginLiteral, (stateF, ps))
     else if c = CHR ''n'' then (scanBeginLiteral, (stateN, ps))
     else if CHR ''1'' \<le> c \<and> c \<le> CHR ''9'' then (scanBeginLiteral, (state1, ps))
     else scan_fail ps)"

definition stateBeginValueOrEmpty_fn :: "parseState list \<Rightarrow> char \<Rightarrow> opcode \<times> scanner" where
  "stateBeginValueOrEmpty_fn ps c =
    (if isSpace c then (scanSkipSpace, (stateBeginValueOrEmpty, ps))
     else if c = CHR '']'' then stateEndValue_fn ps c
     else stateBeginValue_fn ps c)"

definition stateBeginString_fn :: "parseState list \<Rightarrow> char \<Rightarrow> opcode \<times> scanner" where
  "stateBeginString_fn ps c =
    (if isSpace c then (scanSkipSpace, (stateBeginString, ps))
     else if c = quote_ch then (scanBeginLiteral, (stateInString, ps))
     else scan_fail ps)"

definition stateBeginStringOrEmpty_fn :: "parseState list \<Rightarrow> char \<Rightarrow> opcode \<times> scanner" where
  "stateBeginStringOrEmpty_fn ps c =
    (if isSpace c then (scanSkipSpace, (stateBeginStringOrEmpty, ps))
     else if c = CHR ''}'' then stateEndValue_fn (parseObjectValue # tl ps) c
     else stateBeginString_fn ps c)"

definition stateInString_fn :: "parseState list \<Rightarrow> char \<Rightarrow> opcode \<times> scanner" where
  "stateInString_fn ps c =
    (if c = quote_ch then (scanContinue, (stateEndValue, ps))
     else if c = backslash then (scanContinue, (stateInStringEsc, ps))
     else if byte c < 0x20 then scan_fail ps
     else (scanContinue, (stateInString, ps)))"

definition stateInStringEsc_fn :: "parseState list \<Rightarrow> char \<Rightarrow> opcode \<times> scanner" where
  "stateInStringEsc_fn ps c =
    (if c = CHR ''b'' \<or> c = CHR ''f'' \<or> c = CHR ''n'' \<or> c = CHR ''r'' \<or> c = CHR ''t''
        \<or> c = backslash \<or> c = CHR ''/'' \<or> c = quote_ch
     then (scanContinue, (stateInString, ps))
     else if c = CHR ''u'' then (scanContinue, (stateInStringEscU, ps))
     else scan_fail ps)"

definition hex_then :: "scanStep \<Rightarrow> parseState list \<Rightarrow> char \<Rightarrow> opcode \<times> scanner" where
  \<comment> \<open>the four \<^verbatim>\<open>stateInStringEscU...\<close> steps: a hexadecimal digit, then the next step\<close>
  "hex_then next ps c = (if isHex c then (scanContinue, (next, ps)) else scan_fail ps)"

definition state0_fn :: "parseState list \<Rightarrow> char \<Rightarrow> opcode \<times> scanner" where
  "state0_fn ps c =
    (if c = CHR ''.'' then (scanContinue, (stateDot, ps))
     else if c = CHR ''e'' \<or> c = CHR ''E'' then (scanContinue, (stateE, ps))
     else stateEndValue_fn ps c)"

definition state1_fn :: "parseState list \<Rightarrow> char \<Rightarrow> opcode \<times> scanner" where
  "state1_fn ps c = (if isDigit c then (scanContinue, (state1, ps)) else state0_fn ps c)"

definition stateNeg_fn :: "parseState list \<Rightarrow> char \<Rightarrow> opcode \<times> scanner" where
  "stateNeg_fn ps c =
    (if c = CHR ''0'' then (scanContinue, (state0, ps))
     else if CHR ''1'' \<le> c \<and> c \<le> CHR ''9'' then (scanContinue, (state1, ps))
     else scan_fail ps)"

definition stateDot_fn :: "parseState list \<Rightarrow> char \<Rightarrow> opcode \<times> scanner" where
  "stateDot_fn ps c = (if isDigit c then (scanContinue, (stateDot0, ps)) else scan_fail ps)"

definition stateDot0_fn :: "parseState list \<Rightarrow> char \<Rightarrow> opcode \<times> scanner" where
  "stateDot0_fn ps c =
    (if isDigit c then (scanContinue, (stateDot0, ps))
     else if c = CHR ''e'' \<or> c = CHR ''E'' then (scanContinue, (stateE, ps))
     else stateEndValue_fn ps c)"

definition stateESign_fn :: "parseState list \<Rightarrow> char \<Rightarrow> opcode \<times> scanner" where
  "stateESign_fn ps c = (if isDigit c then (scanContinue, (stateE0, ps)) else scan_fail ps)"

definition stateE_fn :: "parseState list \<Rightarrow> char \<Rightarrow> opcode \<times> scanner" where
  "stateE_fn ps c =
    (if c = CHR ''+'' \<or> c = CHR ''-'' then (scanContinue, (stateESign, ps)) else stateESign_fn ps c)"

definition stateE0_fn :: "parseState list \<Rightarrow> char \<Rightarrow> opcode \<times> scanner" where
  "stateE0_fn ps c = (if isDigit c then (scanContinue, (stateE0, ps)) else stateEndValue_fn ps c)"

definition letter_then :: "char \<Rightarrow> scanStep \<Rightarrow> parseState list \<Rightarrow> char \<Rightarrow> opcode \<times> scanner" where
  \<comment> \<open>the steps inside \<^verbatim>\<open>true\<close>, \<^verbatim>\<open>false\<close> and \<^verbatim>\<open>null\<close>: one expected letter\<close>
  "letter_then l next ps c = (if c = l then (scanContinue, (next, ps)) else scan_fail ps)"

fun scan_step :: "scanner \<Rightarrow> char \<Rightarrow> opcode \<times> scanner" where
  "scan_step (stateBeginValueOrEmpty, ps) c = stateBeginValueOrEmpty_fn ps c"
| "scan_step (stateBeginValue, ps) c = stateBeginValue_fn ps c"
| "scan_step (stateBeginStringOrEmpty, ps) c = stateBeginStringOrEmpty_fn ps c"
| "scan_step (stateBeginString, ps) c = stateBeginString_fn ps c"
| "scan_step (stateEndValue, ps) c = stateEndValue_fn ps c"
| "scan_step (stateEndTop, ps) c = stateEndTop_fn ps c"
| "scan_step (stateInString, ps) c = stateInString_fn ps c"
| "scan_step (stateInStringEsc, ps) c = stateInStringEsc_fn ps c"
| "scan_step (stateInStringEscU, ps) c = hex_then stateInStringEscU1 ps c"
| "scan_step (stateInStringEscU1, ps) c = hex_then stateInStringEscU12 ps c"
| "scan_step (stateInStringEscU12, ps) c = hex_then stateInStringEscU123 ps c"
| "scan_step (stateInStringEscU123, ps) c = hex_then stateInString ps c"
| "scan_step (stateNeg, ps) c = stateNeg_fn ps c"
| "scan_step (state1, ps) c = state1_fn ps c"
| "scan_step (state0, ps) c = state0_fn ps c"
| "scan_step (stateDot, ps) c = stateDot_fn ps c"
| "scan_step (stateDot0, ps) c = stateDot0_fn ps c"
| "scan_step (stateE, ps) c = stateE_fn ps c"
| "scan_step (stateESign, ps) c = stateESign_fn ps c"
| "scan_step (stateE0, ps) c = stateE0_fn ps c"
| "scan_step (stateT, ps) c = letter_then CHR ''r'' stateTr ps c"
| "scan_step (stateTr, ps) c = letter_then CHR ''u'' stateTru ps c"
| "scan_step (stateTru, ps) c = letter_then CHR ''e'' stateEndValue ps c"
| "scan_step (stateF, ps) c = letter_then CHR ''a'' stateFa ps c"
| "scan_step (stateFa, ps) c = letter_then CHR ''l'' stateFal ps c"
| "scan_step (stateFal, ps) c = letter_then CHR ''s'' stateFals ps c"
| "scan_step (stateFals, ps) c = letter_then CHR ''e'' stateEndValue ps c"
| "scan_step (stateN, ps) c = letter_then CHR ''u'' stateNu ps c"
| "scan_step (stateNu, ps) c = letter_then CHR ''l'' stateNul ps c"
| "scan_step (stateNul, ps) c = letter_then CHR ''l'' stateEndValue ps c"
| "scan_step (stateError, ps) c = (scanError, (stateError, ps))"

definition newScanner :: scanner where
  "newScanner = (stateBeginValue, [])"

definition eof :: "scanner \<Rightarrow> opcode" where
  "eof s =
    (if fst s = stateError then scanError
     else if fst s = stateEndTop then scanEnd
     else if fst (snd (scan_step s CHR '' '')) = stateEndTop then scanEnd
     else scanError)"

fun checkValid :: "scanner \<Rightarrow> string \<Rightarrow> bool" where
  "checkValid s [] = (eof s \<noteq> scanError)"
| "checkValid s (c # cs) =
    (case scan_step s c of (v, s') \<Rightarrow> if v = scanError then False else checkValid s' cs)"

definition Valid :: "string \<Rightarrow> bool" where
  \<comment> \<open>\<^verbatim>\<open>json.Valid\<close>\<close>
  "Valid data = checkValid newScanner data"

section \<open>Request identifiers\<close>

text \<open>
  The errors the repository creates, one constructor for each \<^verbatim>\<open>errors.New\<close> and
  \<^verbatim>\<open>fmt.Errorf\<close> of the source, holding what the message interpolates.
  \<open>JSONError\<close> is an error that \<^verbatim>\<open>encoding/json\<close> reports, with its text,
  where the library is a parameter; the last three are the errors of the library where it is
  embedded: a syntax error, a JSON value that does not fit the Go field of the given name,
  and the error of a \<^verbatim>\<open>MarshalJSON\<close> method or of compacting what it returned.
\<close>

datatype error =
    InvalidID string
  | NilRawID
  | EmptyInput
  | ParamsNotListOrMap
  | InvalidVersion string
  | BothRequestAndResponse
  | ResponseIsNotification
  | NeitherRequestNorResponse
  | EmptyParamsData
  | NamedParamsIntoList
  | InvalidParamsData
  | CountMismatch nat nat
  | FieldDecodeFailed nat error
  | Join "error list"
  | JSONError string
  | SyntaxError
  | UnmarshalTypeError string
  | MarshalerError error

type_synonym RawID = string

definition maxIDLength :: nat where
  "maxIDLength = 32 * 2 + 2 + 2"

definition IsValid :: "RawID \<Rightarrow> bool" where
  \<comment> \<open>The final loop ranges over the runes of the id: a byte outside ASCII yields a rune
      above \<^verbatim>\<open>'9'\<close>, so the test is the same taken byte by byte.\<close>
  "IsValid rid =
    (if length rid = 0 then True
     else if length rid > maxIDLength then False
     else if rid = ''null'' then True
     else if hd rid = quote_ch then last rid = quote_ch \<and> Valid rid
     else list_all isDigit rid)"

definition IsNotification :: "RawID \<Rightarrow> bool" where
  "IsNotification rid = (length rid = 0)"

definition RawID_MarshalJSON :: "RawID \<Rightarrow> error + string" where
  "RawID_MarshalJSON rid = (if \<not> IsValid rid then Inl (InvalidID rid) else Inr rid)"

definition RawID_UnmarshalJSON :: "RawID option \<Rightarrow> string \<Rightarrow> RawID option \<times> error option" where
  \<comment> \<open>The receiver is a pointer: \<open>None\<close> is the nil pointer, \<open>Some\<close> its pointee. The
      pointee is overwritten before the check, so it holds the data also when the check fails.\<close>
  "RawID_UnmarshalJSON rid data =
    (case rid of
       None \<Rightarrow> (None, Some NilRawID)
     | Some _ \<Rightarrow> if \<not> IsValid data then (Some data, Some (InvalidID data)) else (Some data, None))"

definition RawID_Equal :: "RawID \<Rightarrow> RawID \<Rightarrow> bool" where
  "RawID_Equal rid other = (rid = other)"

section \<open>Params\<close>

type_synonym Params = string

definition Params_MarshalJSON :: "Params \<Rightarrow> error + string" where
  "Params_MarshalJSON p = Inr p"

definition Params_UnmarshalJSON :: "Params \<Rightarrow> string \<Rightarrow> Params \<times> error option" where
  \<comment> \<open>The first argument is the value the receiver points to; it is kept on failure.\<close>
  "Params_UnmarshalJSON p data =
    (if length data = 0 then (p, Some EmptyInput)
     else if hd data \<noteq> CHR ''['' \<and> hd data \<noteq> CHR ''{'' then (p, Some ParamsNotListOrMap)
     else (data, None))"

section \<open>The grammar of string literals\<close>

text \<open>
  The body of a JSON string literal (what stands between the two quotes), as the id grammar
  words it: no raw control byte, no unescaped quote, and every backslash starts an escape
  (one of \<^verbatim>\<open>b f n r t \ / "\<close>, or \<^verbatim>\<open>u\<close> and four hexadecimal digits).
\<close>

definition isSimpleEscape :: "char \<Rightarrow> bool" where
  "isSimpleEscape c = (c = CHR ''b'' \<or> c = CHR ''f'' \<or> c = CHR ''n'' \<or> c = CHR ''r'' \<or> c = CHR ''t''
        \<or> c = backslash \<or> c = CHR ''/'' \<or> c = quote_ch)"

fun string_body :: "string \<Rightarrow> bool" where
  "string_body [] = True"
| "string_body (c # cs) =
    (if c = backslash then
       (case cs of
          [] \<Rightarrow> False
        | e # r \<Rightarrow>
            if isSimpleEscape e then string_body r
            else if e = CHR ''u'' then
              (case r of
                 h1 # h2 # h3 # h4 # r' \<Rightarrow> isHex h1 \<and> isHex h2 \<and> isHex h3 \<and> isHex h4 \<and> string_body r'
               | _ \<Rightarrow> False)
            else False)
     else c \<noteq> quote_ch \<and> 0x20 \<le> byte c \<and> string_body cs)"


section \<open>Messages\<close>

record Request =
  Method :: string
  Params :: Params

record ErrorObject =
  Code :: int64
  Message :: string
  Data :: string

text \<open>
  \<^verbatim>\<open>Result\<close> is a pointer to a raw message: \<open>None\<close> is the nil pointer, and
  \<open>Some x\<close> a pointer to a raw message that is not nil and holds the bytes \<open>x\<close>
  (\<open>Some []\<close> points to an empty message that is not nil). A pointer to a nil raw
  message is written \<open>Some ''null''\<close>: the only code that reads what the pointer refers
  to is \<^verbatim>\<open>json.RawMessage.MarshalJSON\<close>, which returns the bytes
  \<^verbatim>\<open>null\<close> for a nil message and the message itself otherwise.
\<close>

record Response =
  Result :: "string option"
  Error :: "ErrorObject option"

datatype V2 = V2

definition v2Bytes :: string where
  "v2Bytes = ''2.0''"

definition V2_MarshalText :: "V2 \<Rightarrow> error + string" where
  "V2_MarshalText v = Inr v2Bytes"

definition V2_UnmarshalText :: "string \<Rightarrow> error option" where
  "V2_UnmarshalText data =
    (if length data \<noteq> 3 \<or> data ! 0 \<noteq> CHR ''2'' \<or> data ! 1 \<noteq> CHR ''.'' \<or> data ! 2 \<noteq> CHR ''0''
     then Some (InvalidVersion data) else None)"

text \<open>
  \<^verbatim>\<open>Message\<close> embeds a pointer to a \<^verbatim>\<open>Request\<close> and a pointer to a
  \<^verbatim>\<open>Response\<close> (\<open>None\<close> is the nil pointer); \<^verbatim>\<open>jsonMessage\<close> has the
  same three fields and the version marker.
\<close>

record Message =
  Request :: "Request option"
  Response :: "Response option"
  ID :: RawID

record jsonMessage = Message +
  JSONRPC :: V2

definition Check :: "jsonMessage \<Rightarrow> error option" where
  "Check m =
    (if Response m \<noteq> None then
       (if Request m \<noteq> None then Some BothRequestAndResponse
        else if IsNotification (ID m) then Some ResponseIsNotification
        else None)
     else
       (if Request m = None then Some NeitherRequestNorResponse
        else None))"

section \<open>Building responses\<close>

text \<open>
  In this section an error value is given by the text its \<^verbatim>\<open>Error\<close> method returns,
  which is all that \<^verbatim>\<open>AnnotatedErrorObj\<close> reads of it; \<^verbatim>\<open>fmt.Errorf\<close> with
  \<^verbatim>\<open>%w\<close> or \<^verbatim>\<open>%s\<close> puts the text of its argument after the prefix. The payload is
  of any type; \<^verbatim>\<open>json.Marshal\<close> of the payload is the parameter \<open>json_Marshal\<close>,
  which returns the encoded bytes or the text of its error. A panic is \<open>Inl\<close> of the
  text of the value the code panics with.
\<close>

definition RespondSuccess :: "('a \<Rightarrow> string + string) \<Rightarrow> 'a \<Rightarrow> string + Response" where
  "RespondSuccess json_Marshal data =
    (case json_Marshal data of
       Inl err \<Rightarrow> Inl (''failed to encode response: '' @ err)
     | Inr x \<Rightarrow> Inr \<lparr>Result = Some x, Error = None\<rparr>)"

definition Message_RespondSuccess :: "('a \<Rightarrow> string + string) \<Rightarrow> Message \<Rightarrow> 'a \<Rightarrow> string + Message" where
  "Message_RespondSuccess json_Marshal m data =
    (if Response m \<noteq> None then Inl (''cannot respond to a response: '' @ ID m)
     else case RespondSuccess json_Marshal data of
       Inl err \<Rightarrow> Inl err
     | Inr resp \<Rightarrow> Inr \<lparr>Request = None, Response = Some resp, ID = ID m\<rparr>)"

definition ConstErrorObj :: "ErrorConst \<Rightarrow> ErrorObject" where
  "ConstErrorObj c = \<lparr>Code = ErrorConst_Code c, Message = ErrorConst_Message c, Data = []\<rparr>"

definition AnnotatedErrorObj :: "ErrorConst \<Rightarrow> string \<Rightarrow> ErrorObject" where
  "AnnotatedErrorObj c err =
    \<lparr>Code = ErrorConst_Code c, Message = ErrorConst_Message c @ '': '' @ err, Data = []\<rparr>"

definition Respond :: "('a \<Rightarrow> string + string) \<Rightarrow> 'a \<Rightarrow> Response" where
  "Respond json_Marshal data =
    (case RespondSuccess json_Marshal data of
       Inl err \<Rightarrow> \<lparr>Result = None, Error = Some (AnnotatedErrorObj InternalError err)\<rparr>
     | Inr resp \<Rightarrow> resp)"

definition Message_Respond :: "('a \<Rightarrow> string + string) \<Rightarrow> Message \<Rightarrow> 'a \<Rightarrow> string + Message" where
  "Message_Respond json_Marshal m data =
    (if Response m \<noteq> None then Inl (''cannot respond to a response: '' @ ID m)
     else Inr \<lparr>Request = None, Response = Some (Respond json_Marshal data), ID = ID m\<rparr>)"

definition Message_RespondErr :: "Message \<Rightarrow> ErrorObject option \<Rightarrow> string + Message" where
  "Message_RespondErr m errObj =
    (if Response m \<noteq> None then Inl (''cannot respond to a response: '' @ ID m)
     else Inr \<lparr>Request = None, Response = Some \<lparr>Result = None, Error = errObj\<rparr>, ID = ID m\<rparr>)"

section \<open>The params decoder\<close>

text \<open>
  \<^verbatim>\<open>ParamsDecoder\<close> inspects its type parameter by reflection. A Go type is modelled
  by what the decoder can tell apart: a struct type with its declared fields in order
  (name, whether the field is exported, type), a slice, a pointer, a defined (named) type
  over an underlying type, and any other type by its name. Two types are the same type
  when the terms are equal; \<^verbatim>\<open>struct{}\<close> is the struct type without fields.
\<close>

datatype gotype =
    TStruct "(string \<times> bool \<times> gotype) list"
  | TSlice gotype
  | TPointer gotype
  | TNamed string gotype
  | TOther string

datatype Kind = Slice | Struct | Pointer | OtherKind

fun Kind_of :: "gotype \<Rightarrow> Kind" where
  "Kind_of (TStruct fs) = Struct"
| "Kind_of (TSlice t) = Slice"
| "Kind_of (TPointer t) = Pointer"
| "Kind_of (TNamed n t) = Kind_of t"
| "Kind_of (TOther n) = OtherKind"

fun Elem :: "gotype \<Rightarrow> gotype" where
  \<comment> \<open>called on types of kind \<^verbatim>\<open>Pointer\<close> only\<close>
  "Elem (TPointer t) = t"
| "Elem (TSlice t) = t"
| "Elem (TNamed n t) = Elem t"
| "Elem t = t"

fun fields_of :: "gotype \<Rightarrow> (string \<times> bool \<times> gotype) list" where
  "fields_of (TStruct fs) = fs"
| "fields_of (TNamed n t) = fields_of t"
| "fields_of t = []"

definition emptyStruct :: gotype where
  "emptyStruct = TStruct []"

text \<open>
  A value of a destination type, as far as the decoder itself reads or writes it: the zero
  value of a type that is not a struct (a nil pointer, a nil slice, an empty string, 0), a
  struct given by the values of its fields in declaration order, a pointer to a value, or
  a value that \<^verbatim>\<open>encoding/json\<close> has decoded, of a type \<open>'v\<close> of its own.
\<close>

datatype 'v goval =
    Zero
  | StructV "'v goval list"
  | PtrV "'v goval"
  | LibV 'v

fun zero :: "gotype \<Rightarrow> 'v goval" where
  "zero (TStruct fs) = StructV (map (\<lambda>f. zero (snd (snd f))) fs)"
| "zero (TNamed n t) = zero t"
| "zero (TSlice t) = Zero"
| "zero (TPointer t) = Zero"
| "zero (TOther n) = Zero"

text \<open>
  The three calls into \<^verbatim>\<open>encoding/json\<close> are parameters of the model:
  \<open>unmarshal\<close> is \<^verbatim>\<open>json.Unmarshal(data, &dest)\<close> for a destination of the given
  type holding the given value, \<open>decode_number\<close> the same through a decoder with
  \<^verbatim>\<open>UseNumber\<close>; both return the destination's new value and the error. \<open>raw_items\<close>
  is \<^verbatim>\<open>json.Unmarshal\<close> into a slice of raw messages.
\<close>

record 'v json_lib =
  unmarshal :: "gotype \<Rightarrow> string \<Rightarrow> 'v goval \<Rightarrow> 'v goval \<times> error option"
  decode_number :: "gotype \<Rightarrow> string \<Rightarrow> 'v goval \<Rightarrow> 'v goval \<times> error option"
  raw_items :: "string \<Rightarrow> error + string list"

definition TrimLeft :: "string \<Rightarrow> string \<Rightarrow> string" where
  \<comment> \<open>\<^verbatim>\<open>bytes.TrimLeft\<close>, for a cutset of ASCII bytes\<close>
  "TrimLeft p cutset = dropWhile (\<lambda>c. c \<in> set cutset) p"

definition errors_Join :: "error option list \<Rightarrow> error option" where
  \<comment> \<open>nil errors are discarded; the result is nil when every error is nil\<close>
  "errors_Join errs = (case List.map_filter id errs of [] \<Rightarrow> None | es \<Rightarrow> Some (Join es))"

datatype panic = UnexportedField

text \<open>
  The loop over the items of a wire array. \<open>i\<close> is the index of the next field, \<open>done\<close>
  the fields already bound, \<open>fs\<close> and \<open>vs\<close> the declarations and the current values of
  the fields from \<open>i\<close> on. \<^verbatim>\<open>v.Field(i).Addr().Interface()\<close> panics on a field that is
  not exported. The caller has checked that there are as many items as fields.
\<close>

fun bind_fields ::
  "'v json_lib \<Rightarrow> nat \<Rightarrow> (string \<times> bool \<times> gotype) list \<Rightarrow> 'v goval list \<Rightarrow> string list
    \<Rightarrow> 'v goval list \<Rightarrow> error option \<Rightarrow> panic + ('v goval list \<times> error option)" where
  "bind_fields lib i (f # fs) (v # vs) (itemData # items) done err =
    (if \<not> fst (snd f) then Inl UnexportedField
     else case unmarshal lib (snd (snd f)) itemData v of
       (v', None) \<Rightarrow> bind_fields lib (Suc i) fs vs items (done @ [v']) err
     | (v', Some fErr) \<Rightarrow>
         bind_fields lib (Suc i) fs vs items (done @ [v'])
           (errors_Join [err, Some (FieldDecodeFailed i fErr)]))"
| "bind_fields lib i fs vs items done err = Inr (done @ vs, err)"

definition struct_fields :: "'v goval \<Rightarrow> 'v goval list" where
  "struct_fields v = (case v of StructV vs \<Rightarrow> vs | _ \<Rightarrow> [])"

definition ParamsDecoder :: "'v json_lib \<Rightarrow> gotype \<Rightarrow> Params \<Rightarrow> panic + ('v goval \<times> error option)" where
  "ParamsDecoder lib typ p0 =
    (let kind0 = Kind_of typ;
         pointerTo = (kind0 = Pointer);
         kind = (if kind0 = Pointer then Kind_of (Elem typ) else kind0);
         dest = zero typ;
         p = TrimLeft p0 [CHR 0x09, CHR 0x0A, CHR 0x0D, CHR '' '']
     in
     if length p = 0 then
       (if typ = emptyStruct then Inr (dest, None) else Inr (dest, Some EmptyParamsData))
     else case kind of
       Slice \<Rightarrow>
         (if hd p = CHR ''{'' then Inr (dest, Some NamedParamsIntoList)
          else if hd p = CHR ''['' then Inr (decode_number lib typ p dest)
          else Inr (dest, Some InvalidParamsData))
     | Struct \<Rightarrow>
         (if hd p = CHR ''{'' then Inr (unmarshal lib typ p dest)
          else if hd p = CHR ''['' then
            (case raw_items lib p of
               Inl err \<Rightarrow> Inr (dest, Some err)
             | Inr items \<Rightarrow>
                 let styp = (if pointerTo then Elem typ else typ);
                     v = (if pointerTo then zero styp else dest);
                     wrap = (\<lambda>vs. if pointerTo then PtrV (StructV vs) else StructV vs);
                     expected = length (fields_of styp)
                 in if expected \<noteq> length items
                    then Inr (wrap (struct_fields v), Some (CountMismatch expected (length items)))
                    else case bind_fields lib 0 (fields_of styp) (struct_fields v) items [] None of
                      Inl pn \<Rightarrow> Inl pn
                    | Inr (vs, err) \<Rightarrow> Inr (wrap vs, err))
          else Inr (dest, Some InvalidParamsData))
     | _ \<Rightarrow> Inr (unmarshal lib typ p dest))"

section \<open>Strings of the JSON library\<close>

definition in_range :: "nat \<Rightarrow> nat \<Rightarrow> char \<Rightarrow> bool" where
  "in_range lo hi c = (lo \<le> byte c \<and> byte c \<le> hi)"

text \<open>
  \<^verbatim>\<open>utf8.DecodeRune\<close>, as far as the library uses it: the number of bytes of the
  well-formed UTF-8 sequence at the front of the input, or 0 where \<^verbatim>\<open>DecodeRune\<close>
  returns \<^verbatim>\<open>(RuneError, 1)\<close>.
\<close>

fun utf8_size :: "string \<Rightarrow> nat" where
  "utf8_size [] = 0"
| "utf8_size [b0] = (if byte b0 < 0x80 then 1 else 0)"
| "utf8_size (b0 # b1 # rest) =
    (if byte b0 < 0x80 then 1
     else if in_range 0xC2 0xDF b0 then (if in_range 0x80 0xBF b1 then 2 else 0)
     else if in_range 0xE0 0xEF b0 then
       (if (if byte b0 = 0xE0 then in_range 0xA0 0xBF b1
            else if byte b0 = 0xED then in_range 0x80 0x9F b1
            else in_range 0x80 0xBF b1)
           \<and> (case rest of b2 # _ \<Rightarrow> in_range 0x80 0xBF b2 | [] \<Rightarrow> False)
        then 3 else 0)
     else if in_range 0xF0 0xF4 b0 then
       (if (if byte b0 = 0xF0 then in_range 0x90 0xBF b1
            else if byte b0 = 0xF4 then in_range 0x80 0x8F b1
            else in_range 0x80 0xBF b1)
           \<and> (case rest of b2 # b3 # _ \<Rightarrow> in_range 0x80 0xBF b2 \<and> in_range 0x80 0xBF b3 | _ \<Rightarrow> False)
        then 4 else 0)
     else 0)"

definition RuneError :: nat where
  "RuneError = 0xFFFD"

definition EncodeRune :: "nat \<Rightarrow> string" where
  "EncodeRune r =
    (if r < 0x80 then [char_of r]
     else if r < 0x800 then [char_of (0xC0 + r div 64), char_of (0x80 + r mod 64)]
     else if (0xD800 \<le> r \<and> r \<le> 0xDFFF) \<or> 0x10FFFF < r then [CHR 0xEF, CHR 0xBF, CHR 0xBD]
     else if r < 0x10000 then
       [char_of (0xE0 + r div 4096), char_of (0x80 + (r div 64) mod 64), char_of (0x80 + r mod 64)]
     else
       [char_of (0xF0 + r div 262144), char_of (0x80 + (r div 4096) mod 64),
        char_of (0x80 + (r div 64) mod 64), char_of (0x80 + r mod 64)])"

definition hexval :: "char \<Rightarrow> nat option" where
  "hexval c =
    (if isDigit c then Some (byte c - 48)
     else if CHR ''a'' \<le> c \<and> c \<le> CHR ''f'' then Some (byte c - 97 + 10)
     else if CHR ''A'' \<le> c \<and> c \<le> CHR ''F'' then Some (byte c - 65 + 10)
     else None)"

fun getu4 :: "string \<Rightarrow> nat option" where
  \<comment> \<open>the rune of \<^verbatim>\<open>\uXXXX\<close> at the front of the input; \<open>None\<close> is Go's -1\<close>
  "getu4 (bs # u # h1 # h2 # h3 # h4 # rest) =
    (if bs = backslash \<and> u = CHR ''u'' then
       (case (hexval h1, hexval h2, hexval h3, hexval h4) of
          (Some a, Some b, Some c, Some d) \<Rightarrow> Some (((a * 16 + b) * 16 + c) * 16 + d)
        | _ \<Rightarrow> None)
     else None)"
| "getu4 s = None"

definition utf16_DecodeRune :: "nat \<Rightarrow> nat option \<Rightarrow> nat" where
  "utf16_DecodeRune r1 r2 =
    (case r2 of
       Some r2' \<Rightarrow>
         if 0xD800 \<le> r1 \<and> r1 < 0xDC00 \<and> 0xDC00 \<le> r2' \<and> r2' < 0xE000
         then (r1 - 0xD800) * 1024 + (r2' - 0xDC00) + 0x10000
         else RuneError
     | None \<Rightarrow> RuneError)"

function unquote_body :: "string \<Rightarrow> string option" where
  "unquote_body [] = Some []"
| "unquote_body (c # cs) =
    (if c = backslash then
       (case cs of
          [] \<Rightarrow> None
        | e # r \<Rightarrow>
            if e = quote_ch \<or> e = backslash \<or> e = CHR ''/'' \<or> e = CHR 0x27 then map_option ((#) e) (unquote_body r)
            else if e = CHR ''b'' then map_option ((#) (CHR 0x08)) (unquote_body r)
            else if e = CHR ''f'' then map_option ((#) (CHR 0x0C)) (unquote_body r)
            else if e = CHR ''n'' then map_option ((#) (CHR 0x0A)) (unquote_body r)
            else if e = CHR ''r'' then map_option ((#) (CHR 0x0D)) (unquote_body r)
            else if e = CHR ''t'' then map_option ((#) (CHR 0x09)) (unquote_body r)
            else if e = CHR ''u'' then
              (case getu4 (c # cs) of
                 None \<Rightarrow> None
               | Some rr \<Rightarrow>
                   if 0xD800 \<le> rr \<and> rr < 0xE000 then
                     (let dec = utf16_DecodeRune rr (getu4 (drop 6 (c # cs)))
                      in if dec \<noteq> RuneError
                         then map_option ((@) (EncodeRune dec)) (unquote_body (drop 12 (c # cs)))
                         else map_option ((@) (EncodeRune RuneError)) (unquote_body (drop 6 (c # cs))))
                   else map_option ((@) (EncodeRune rr)) (unquote_body (drop 6 (c # cs))))
            else None)
     else if c = quote_ch \<or> byte c < 0x20 then None
     else if byte c < 0x80 then map_option ((#) c) (unquote_body cs)
     else if utf8_size (c # cs) = 0 then map_option ((@) (EncodeRune RuneError)) (unquote_body cs)
     else map_option ((@) (take (utf8_size (c # cs)) (c # cs))) (unquote_body (drop (utf8_size (c # cs)) (c # cs))))"
  by pat_completeness auto
termination
  by (relation "measure length") (auto split: if_splits)

definition unquoteBytes :: "string \<Rightarrow> string option" where
  "unquoteBytes s =
    (if length s < 2 \<or> hd s \<noteq> quote_ch \<or> last s \<noteq> quote_ch then None
     else unquote_body (butlast (tl s)))"

definition htmlSafe :: "char \<Rightarrow> bool" where
  \<comment> \<open>\<^verbatim>\<open>htmlSafeSet\<close>: the ASCII bytes that are written as they are\<close>
  "htmlSafe c = (0x20 \<le> byte c \<and> byte c < 0x80 \<and> c \<noteq> quote_ch \<and> c \<noteq> backslash
      \<and> c \<noteq> CHR ''<'' \<and> c \<noteq> CHR ''>'' \<and> c \<noteq> CHR ''&'')"

definition u00 :: "char \<Rightarrow> string" where
  "u00 c = [backslash, CHR ''u'', CHR ''0'', CHR ''0'', hex (byte c div 16), hex (byte c mod 16)]"

definition escape_byte :: "char \<Rightarrow> string" where
  "escape_byte b =
    (if b = backslash \<or> b = quote_ch then [backslash, b]
     else if b = CHR 0x08 then [backslash, CHR ''b'']
     else if b = CHR 0x0C then [backslash, CHR ''f'']
     else if b = CHR 0x0A then [backslash, CHR ''n'']
     else if b = CHR 0x0D then [backslash, CHR ''r'']
     else if b = CHR 0x09 then [backslash, CHR ''t'']
     else u00 b)"

function appendString_body :: "string \<Rightarrow> string" where
  "appendString_body [] = []"
| "appendString_body (b # rest) =
    (if byte b < 0x80 then
       (if htmlSafe b then b # appendString_body rest else escape_byte b @ appendString_body rest)
     else if utf8_size (b # rest) = 0 then (backslash # ''ufffd'') @ appendString_body rest
     else if take 3 (b # rest) = [CHR 0xE2, CHR 0x80, CHR 0xA8] then
       (backslash # ''u2028'') @ appendString_body (drop 3 (b # rest))
     else if take 3 (b # rest) = [CHR 0xE2, CHR 0x80, CHR 0xA9] then
       (backslash # ''u2029'') @ appendString_body (drop 3 (b # rest))
     else take (utf8_size (b # rest)) (b # rest) @ appendString_body (drop (utf8_size (b # rest)) (b # rest)))"
  by pat_completeness auto
termination
  by (relation "measure length") (auto split: if_splits)

definition appendString :: "string \<Rightarrow> string" where
  \<comment> \<open>\<^verbatim>\<open>appendString(dst, src, escapeHTML = true)\<close>: a Go string as a JSON string literal\<close>
  "appendString src = quote_ch # appendString_body src @ [quote_ch]"

text \<open>
  \<^verbatim>\<open>appendCompact(dst, src, escape = true)\<close>. The Go loop keeps the index \<open>start\<close> of
  the first byte not yet copied; \<open>k\<close> is how far \<open>start\<close> lies beyond the current byte
  (0 when the current byte is to be copied).
\<close>

fun compact_loop :: "scanner \<Rightarrow> nat \<Rightarrow> string \<Rightarrow> string option" where
  "compact_loop scan k [] = (if eof scan = scanError then None else Some [])"
| "compact_loop scan k (c # cs) =
    (let esc1 = (c = CHR ''<'' \<or> c = CHR ''>'' \<or> c = CHR ''&'');
         out1 = (if esc1 then u00 c else []);
         k1 = (if esc1 then 1 else k);
         esc2 = (c = CHR 0xE2 \<and> 2 \<le> length cs \<and> cs ! 0 = CHR 0x80 \<and> (cs ! 1 = CHR 0xA8 \<or> cs ! 1 = CHR 0xA9));
         out2 = (if esc2 then (backslash # ''u202'') @ [hex (byte (cs ! 1) mod 16)] else []);
         k2 = (if esc2 then 3 else k1)
     in case scan_step scan c of (v, scan') \<Rightarrow>
       if v = scanError then None
       else let k3 = (if v = scanSkipSpace \<or> v = scanEnd then 1 else k2)
            in map_option (\<lambda>rest. out1 @ out2 @ (if k3 = 0 then [c] else []) @ rest)
                 (compact_loop scan' (k3 - 1) cs))"

definition compact :: "string \<Rightarrow> string option" where
  "compact src = compact_loop newScanner 0 src"

fun digits_val :: "nat \<Rightarrow> string \<Rightarrow> nat" where
  "digits_val acc [] = acc"
| "digits_val acc (c # cs) = digits_val (acc * 10 + (byte c - 48)) cs"

definition ParseInt64 :: "string \<Rightarrow> int64 option" where
  \<comment> \<open>\<^verbatim>\<open>strconv.ParseInt(s, 10, 64)\<close> on a JSON number literal\<close>
  "ParseInt64 s =
    (let neg = (s \<noteq> [] \<and> hd s = CHR ''-'');
         ds = (if neg then tl s else s)
     in if ds = [] \<or> \<not> list_all isDigit ds then None
        else let v = (if neg then - int (digits_val 0 ds) else int (digits_val 0 ds))
             in if - (2 ^ 63) \<le> v \<and> v < 2 ^ 63 then Some (word_of_int v) else None)"

text \<open>
  \<^verbatim>\<open>foldName\<close>: the key of the case-insensitive field lookup. ASCII letters are
  upper-cased. Of the runes outside ASCII only U+017F and U+212A fold to an ASCII letter
  (S and K); every other rune folds to a rune outside ASCII and is left as it is here,
  which gives the same answer whenever the other name is ASCII, as all field names are.
\<close>

fun foldName :: "string \<Rightarrow> string" where
  "foldName [] = []"
| "foldName (c # cs) =
    (if CHR ''a'' \<le> c \<and> c \<le> CHR ''z'' then char_of (byte c - 32) # foldName cs
     else if c = CHR 0xC5 \<and> take 1 cs = [CHR 0xBF] then CHR ''S'' # foldName (drop 1 cs)
     else if c = CHR 0xE2 \<and> take 2 cs = [CHR 0x84, CHR 0xAA] then CHR ''K'' # foldName (drop 2 cs)
     else c # foldName cs)"

definition field_lookup :: "string list \<Rightarrow> string \<Rightarrow> string option" where
  \<comment> \<open>an exact match of the key first, else the first field with the same folded name\<close>
  "field_lookup names key =
    (if key \<in> set names then Some key else find (\<lambda>n. foldName n = foldName key) names)"

text \<open>
  One pass of the scanner over a document that cuts an array into the raw texts of its
  elements, and an object into the raw texts of its keys and values in turn. \<open>d\<close> is the
  depth of the parse stack at which the array or object opens, \<open>cur\<close> the raw text being
  collected and \<open>acc\<close> the texts already complete. White space between the tokens of the
  array or object itself is dropped; everything inside an element is kept.
\<close>

fun segments :: "nat \<Rightarrow> scanner \<Rightarrow> string \<Rightarrow> string list \<Rightarrow> string \<Rightarrow> (scanner \<times> string list) option" where
  "segments d s cur acc [] = Some (s, acc)"
| "segments d s cur acc (c # cs) =
    (case scan_step s c of (v, s') \<Rightarrow>
       if v = scanError then None
       else if v = scanSkipSpace \<and> length (snd s') \<le> Suc d then segments d s' cur acc cs
       else if v = scanEnd then segments d s' cur acc cs
       else if (v = scanBeginObject \<or> v = scanBeginArray) \<and> length (snd s) = d then segments d s' [] acc cs
       else if (v = scanObjectKey \<or> v = scanObjectValue \<or> v = scanArrayValue) \<and> length (snd s) = Suc d
         then segments d s' [] (acc @ [cur]) cs
       else if (v = scanEndObject \<or> v = scanEndArray) \<and> length (snd s) = Suc d
         then segments d s' [] (if cur = [] then acc else acc @ [cur]) cs
       else segments d s' (cur @ [c]) acc cs)"

fun pairs :: "'a list \<Rightarrow> ('a \<times> 'a) list" where
  "pairs (k # v # rest) = (k, v) # pairs rest"
| "pairs rest = []"

section \<open>Decoding and encoding the envelope\<close>

definition saveError :: "error option \<Rightarrow> error \<Rightarrow> error option" where
  \<comment> \<open>\<^verbatim>\<open>d.saveError\<close>: only the first error is kept\<close>
  "saveError saved err = (case saved of None \<Rightarrow> Some err | Some e \<Rightarrow> Some e)"

definition zero_ErrorObject :: ErrorObject where
  "zero_ErrorObject = \<lparr>Code = 0, Message = [], Data = []\<rparr>"

definition zero_Request :: Request where
  "zero_Request = \<lparr>Method = [], Params = []\<rparr>"

definition zero_Response :: Response where
  "zero_Response = \<lparr>Result = None, Error = None\<rparr>"

definition zero_jsonMessage :: jsonMessage where
  "zero_jsonMessage = \<lparr>Request = None, Response = None, ID = [], JSONRPC = V2\<rparr>"

definition isNumberStart :: "char \<Rightarrow> bool" where
  "isNumberStart c = (c = CHR ''-'' \<or> isDigit c)"

text \<open>
  One member of the \<^verbatim>\<open>error\<close> object, decoded into an \<^verbatim>\<open>ErrorObject\<close>: the key
  (unquoted) and the raw text of the value. A JSON \<^verbatim>\<open>null\<close> leaves an integer or a
  string field as it is; the raw message \<^verbatim>\<open>data\<close> takes any value, also \<^verbatim>\<open>null\<close>.
\<close>

definition decode_ErrorObject_member ::
  "ErrorObject \<times> error option \<Rightarrow> string \<times> string \<Rightarrow> ErrorObject \<times> error option" where
  "decode_ErrorObject_member st kv =
    (let e = fst st; saved = snd st; raw = snd kv
     in case field_lookup [''code'', ''message'', ''data''] (fst kv) of
       None \<Rightarrow> (e, saved)
     | Some f \<Rightarrow>
         if f = ''code'' then
           (if isNumberStart (hd raw) then
              (case ParseInt64 raw of
                 Some n \<Rightarrow> (e\<lparr>Code := n\<rparr>, saved)
               | None \<Rightarrow> (e, saveError saved (UnmarshalTypeError ''code'')))
            else if hd raw = CHR ''n'' then (e, saved)
            else (e, saveError saved (UnmarshalTypeError ''code'')))
         else if f = ''message'' then
           (if hd raw = quote_ch then
              (case unquoteBytes raw of
                 Some s \<Rightarrow> (e\<lparr>Message := s\<rparr>, saved)
               | None \<Rightarrow> (e, saveError saved SyntaxError))
            else if hd raw = CHR ''n'' then (e, saved)
            else (e, saveError saved (UnmarshalTypeError ''message'')))
         else (e\<lparr>Data := raw\<rparr>, saved))"

definition unquote_key :: "string \<times> string \<Rightarrow> string \<times> string" where
  "unquote_key kv = (case unquoteBytes (fst kv) of Some k \<Rightarrow> (k, snd kv) | None \<Rightarrow> ([], snd kv))"

definition members_of :: "nat \<Rightarrow> scanner \<Rightarrow> string \<Rightarrow> (string \<times> string) list" where
  \<comment> \<open>the members of an object whose text has passed the scanner: keys unquoted, values raw\<close>
  "members_of d s raw =
    (case segments d s [] [] raw of
       None \<Rightarrow> []
     | Some (s', segs) \<Rightarrow> map unquote_key (pairs segs))"

definition decode_ErrorObject :: "ErrorObject \<Rightarrow> error option \<Rightarrow> string \<Rightarrow> ErrorObject \<times> error option" where
  \<comment> \<open>the raw text is a member value of the envelope: the scanner reads it one level deep\<close>
  "decode_ErrorObject e saved raw =
    foldl decode_ErrorObject_member (e, saved) (members_of 1 (stateBeginValue, [parseObjectValue]) raw)"

definition the_Request :: "jsonMessage \<Rightarrow> Request" where
  \<comment> \<open>the embedded pointer is allocated when a key of its struct is met\<close>
  "the_Request dest = (case Request dest of None \<Rightarrow> zero_Request | Some r \<Rightarrow> r)"

definition the_Response :: "jsonMessage \<Rightarrow> Response" where
  "the_Response dest = (case Response dest of None \<Rightarrow> zero_Response | Some r \<Rightarrow> r)"

text \<open>
  One member of the envelope, decoded into a \<^verbatim>\<open>jsonMessage\<close>. \<open>Inl\<close> is an error
  that ends the decoding at once (the error of an \<^verbatim>\<open>UnmarshalJSON\<close> or
  \<^verbatim>\<open>UnmarshalText\<close> method); a value of the wrong JSON type is saved and decoding goes on.
\<close>

definition decode_jsonMessage_member ::
  "jsonMessage \<times> error option \<Rightarrow> string \<times> string \<Rightarrow> error + jsonMessage \<times> error option" where
  "decode_jsonMessage_member st kv =
    (let dest = fst st; saved = snd st; raw = snd kv
     in case field_lookup [''method'', ''params'', ''result'', ''error'', ''id'', ''jsonrpc''] (fst kv) of
       None \<Rightarrow> Inr (dest, saved)
     | Some f \<Rightarrow>
         if f = ''method'' then
           (let r = the_Request dest
            in if hd raw = quote_ch then
                 (case unquoteBytes raw of
                    Some s \<Rightarrow> Inr (dest\<lparr>Request := Some (r\<lparr>Method := s\<rparr>)\<rparr>, saved)
                  | None \<Rightarrow> Inl SyntaxError)
               else if hd raw = CHR ''n'' then Inr (dest\<lparr>Request := Some r\<rparr>, saved)
               else Inr (dest\<lparr>Request := Some r\<rparr>, saveError saved (UnmarshalTypeError ''method'')))
         else if f = ''params'' then
           (let r = the_Request dest
            in case Params_UnmarshalJSON (Params r) raw of
                 (p, Some err) \<Rightarrow> Inl err
               | (p, None) \<Rightarrow> Inr (dest\<lparr>Request := Some (r\<lparr>Params := p\<rparr>)\<rparr>, saved))
         else if f = ''result'' then
           (let r = the_Response dest
            in if hd raw = CHR ''n'' then Inr (dest\<lparr>Response := Some (r\<lparr>Result := None\<rparr>)\<rparr>, saved)
               else Inr (dest\<lparr>Response := Some (r\<lparr>Result := Some raw\<rparr>)\<rparr>, saved))
         else if f = ''error'' then
           (let r = the_Response dest
            in if hd raw = CHR ''n'' then Inr (dest\<lparr>Response := Some (r\<lparr>Error := None\<rparr>)\<rparr>, saved)
               else
                 (let e = (case Error r of None \<Rightarrow> zero_ErrorObject | Some e \<Rightarrow> e)
                  in if hd raw = CHR ''{'' then
                       (case decode_ErrorObject e saved raw of
                          (e', saved') \<Rightarrow> Inr (dest\<lparr>Response := Some (r\<lparr>Error := Some e'\<rparr>)\<rparr>, saved'))
                     else Inr (dest\<lparr>Response := Some (r\<lparr>Error := Some e\<rparr>)\<rparr>,
                               saveError saved (UnmarshalTypeError ''error''))))
         else if f = ''id'' then
           (case RawID_UnmarshalJSON (Some (ID dest)) raw of
              (Some i, None) \<Rightarrow> Inr (dest\<lparr>ID := i\<rparr>, saved)
            | (_, Some err) \<Rightarrow> Inl err
            | (None, None) \<Rightarrow> Inr (dest, saved))
         else
           (if hd raw = quote_ch then
              (case unquoteBytes raw of
                 Some s \<Rightarrow> (case V2_UnmarshalText s of Some err \<Rightarrow> Inl err | None \<Rightarrow> Inr (dest, saved))
               | None \<Rightarrow> Inl SyntaxError)
            else if hd raw = CHR ''n'' then Inr (dest, saved)
            else Inr (dest, saveError saved (UnmarshalTypeError ''jsonrpc''))))"

fun decode_members :: "jsonMessage \<times> error option \<Rightarrow> (string \<times> string) list \<Rightarrow> error + jsonMessage \<times> error option" where
  "decode_members st [] = Inr st"
| "decode_members st (kv # kvs) =
    (case decode_jsonMessage_member st kv of
       Inl err \<Rightarrow> Inl err
     | Inr st' \<Rightarrow> decode_members st' kvs)"

definition json_Unmarshal_jsonMessage :: "string \<Rightarrow> error + jsonMessage" where
  \<comment> \<open>\<^verbatim>\<open>json.Unmarshal(data, &dest)\<close> for a zero \<^verbatim>\<open>jsonMessage\<close>: the syntax of
      the whole input is checked before anything is decoded\<close>
  "json_Unmarshal_jsonMessage data =
    (case segments 0 newScanner [] [] data of
       None \<Rightarrow> Inl SyntaxError
     | Some (s, segs) \<Rightarrow>
         if eof s = scanError then Inl SyntaxError
         else if hd (dropWhile isSpace data) = CHR ''{'' then
           (case decode_members (zero_jsonMessage, None) (map unquote_key (pairs segs)) of
              Inl err \<Rightarrow> Inl err
            | Inr (dest, Some err) \<Rightarrow> Inl err
            | Inr (dest, None) \<Rightarrow> Inr dest)
         else if hd (dropWhile isSpace data) = CHR ''n'' then Inr zero_jsonMessage
         else Inl (UnmarshalTypeError []))"

definition Message_UnmarshalJSON :: "string \<Rightarrow> error + Message" where
  "Message_UnmarshalJSON data =
    (case json_Unmarshal_jsonMessage data of
       Inl err \<Rightarrow> Inl err
     | Inr dest \<Rightarrow>
         (case Check dest of
            Some err \<Rightarrow> Inl err
          | None \<Rightarrow> Inr \<lparr>Request = Request dest, Response = Response dest, ID = ID dest\<rparr>))"

definition marshalerEncoder :: "error + string \<Rightarrow> error + string" where
  \<comment> \<open>what a \<^verbatim>\<open>MarshalJSON\<close> method returned is compacted, which also checks its syntax\<close>
  "marshalerEncoder r =
    (case r of
       Inl err \<Rightarrow> Inl (MarshalerError err)
     | Inr b \<Rightarrow> (case compact b of None \<Rightarrow> Inl (MarshalerError SyntaxError) | Some out \<Rightarrow> Inr out))"

definition RawMessage_MarshalJSON :: "string option \<Rightarrow> error + string" where
  \<comment> \<open>\<open>None\<close> is the nil message; an empty message that is not nil is returned as it is,
      and compacting it then fails\<close>
  "RawMessage_MarshalJSON m = (case m of None \<Rightarrow> Inr ''null'' | Some b \<Rightarrow> Inr b)"

fun encode_fields :: "(string \<times> (error + string)) list \<Rightarrow> error + string list" where
  "encode_fields [] = Inr []"
| "encode_fields ((name, v) # rest) =
    (case v of
       Inl err \<Rightarrow> Inl err
     | Inr b \<Rightarrow>
         (case encode_fields rest of
            Inl err \<Rightarrow> Inl err
          | Inr bs \<Rightarrow> Inr ((quote_ch # name @ [quote_ch, CHR '':''] @ b) # bs)))"

fun join_commas :: "string list \<Rightarrow> string" where
  "join_commas [] = []"
| "join_commas [x] = x"
| "join_commas (x # xs) = x @ CHR '','' # join_commas xs"

definition encode_struct :: "(string \<times> (error + string)) list \<Rightarrow> error + string" where
  "encode_struct fs =
    (case encode_fields fs of
       Inl err \<Rightarrow> Inl err
     | Inr bs \<Rightarrow> Inr (CHR ''{'' # join_commas bs @ ''}''))"

definition encode_ErrorObject :: "ErrorObject \<Rightarrow> error + string" where
  "encode_ErrorObject e =
    encode_struct
      ([(''code'', Inr (show_int (sint (Code e)))),
        (''message'', Inr (appendString (Message e)))]
       @ (if length (Data e) = 0 then [] else [(''data'', marshalerEncoder (RawMessage_MarshalJSON (Some (Data e))))]))"

definition json_Marshal_jsonMessage :: "jsonMessage \<Rightarrow> error + string" where
  \<comment> \<open>\<^verbatim>\<open>json.Marshal(&out)\<close>: the fields of the embedded structs first, in the order
      of declaration; a field marked \<^verbatim>\<open>omitempty\<close> is left out when it is a nil pointer
      or has length 0\<close>
  "json_Marshal_jsonMessage out =
    encode_struct
      ((case Request out of
          None \<Rightarrow> []
        | Some r \<Rightarrow>
            [(''method'', Inr (appendString (Method r)))]
            @ (if length (Params r) = 0 then [] else [(''params'', marshalerEncoder (Params_MarshalJSON (Params r)))]))
       @ (case Response out of
            None \<Rightarrow> []
          | Some r \<Rightarrow>
              (case Result r of None \<Rightarrow> [] | Some x \<Rightarrow> [(''result'', marshalerEncoder (RawMessage_MarshalJSON (Some x)))])
              @ (case Error r of None \<Rightarrow> [] | Some e \<Rightarrow> [(''error'', encode_ErrorObject e)]))
       @ (if length (ID out) = 0 then [] else [(''id'', marshalerEncoder (RawID_MarshalJSON (ID out)))])
       @ [(''jsonrpc'', case V2_MarshalText (JSONRPC out) of Inl err \<Rightarrow> Inl err | Inr t \<Rightarrow> Inr (appendString t))])"

definition to_jsonMessage :: "Message \<Rightarrow> jsonMessage" where
  "to_jsonMessage m = \<lparr>Request = Request m, Response = Response m, ID = ID m, JSONRPC = V2\<rparr>"

definition Message_MarshalJSON :: "Message \<Rightarrow> string \<times> error option" where
  \<comment> \<open>the two results of the Go method: the data and the error\<close>
  "Message_MarshalJSON m =
    (let out = to_jsonMessage m
     in case json_Marshal_jsonMessage out of
          Inl err \<Rightarrow> ([], Some err)
        | Inr data \<Rightarrow> (data, Check out))"

text \<open>
  \<^verbatim>\<open>json.Marshal(&m)\<close> for a \<^verbatim>\<open>Message\<close>, the call that encodes a message: the
  library calls \<^verbatim>\<open>m.MarshalJSON()\<close>. When the method returns an error, the library
  drops what the method returned as data and returns the error alone, wrapped as the error
  of a marshaler; otherwise it compacts the data.
\<close>

definition json_Marshal_Message :: "Message \<Rightarrow> error + string" where
  "json_Marshal_Message m =
    (case Message_MarshalJSON m of
       (data, Some err) \<Rightarrow> marshalerEncoder (Inl err)
     | (data, None) \<Rightarrow> marshalerEncoder (Inr data))"

section \<open>The library calls of the params decoder, as far as they are embedded\<close>

definition json_Unmarshal_RawMessages :: "string \<Rightarrow> error + string list" where
  \<comment> \<open>\<^verbatim>\<open>json.Unmarshal(data, &items)\<close> for a nil slice of raw messages: the raw texts of
      the elements of an array; \<^verbatim>\<open>null\<close> leaves the slice nil\<close>
  "json_Unmarshal_RawMessages data =
    (case segments 0 newScanner [] [] data of
       None \<Rightarrow> Inl SyntaxError
     | Some (s, segs) \<Rightarrow>
         if eof s = scanError then Inl SyntaxError
         else if hd (dropWhile isSpace data) = CHR ''['' then Inr segs
         else if hd (dropWhile isSpace data) = CHR ''n'' then Inr []
         else Inl (UnmarshalTypeError []))"

text \<open>
  An instance of the library on which the decoder can be run: a decoded value is kept as
  its compact JSON text, \<^verbatim>\<open>null\<close> leaves the destination as it is, and of the Go type
  only \<^verbatim>\<open>string\<close> and \<^verbatim>\<open>int\<close> are checked against the JSON type.
\<close>

definition text_unmarshal :: "gotype \<Rightarrow> string \<Rightarrow> string goval \<Rightarrow> string goval \<times> error option" where
  "text_unmarshal t data v =
    (case compact data of
       None \<Rightarrow> (v, Some SyntaxError)
     | Some c \<Rightarrow>
         if c = ''null'' then (v, None)
         else if t = TOther ''string'' \<and> hd c \<noteq> quote_ch then (v, Some (UnmarshalTypeError ''string''))
         else if t = TOther ''int'' \<and> ParseInt64 c = None then (v, Some (UnmarshalTypeError ''int''))
         else (LibV c, None))"

definition text_lib :: "string json_lib" where
  "text_lib = \<lparr>unmarshal = text_unmarshal, decode_number = text_unmarshal, raw_items = json_Unmarshal_RawMessages\<rparr>"

definition TestObj :: gotype where
  \<comment> \<open>the struct of the repository's tests\<close>
  "TestObj = TNamed ''TestObj'' (TStruct [(''Foo'', True, TOther ''string''), (''Bar'', True, TOther ''int'')])"

section \<open>Reading the result of the params decoder\<close>

text \<open>The failures that a joined error holds, in the order in which they were joined.\<close>

fun failures :: "error \<Rightarrow> error list" where
  "failures (Join es) = concat (map failures es)"
| "failures e = [e]"

definition failures_opt :: "error option \<Rightarrow> error list" where
  "failures_opt err = (case err of None \<Rightarrow> [] | Some e \<Rightarrow> failures e)"

text \<open>
  What the library returns for each item of a wire array, field by field, and the failures
  among these results with the index of their field (\<open>i\<close> is the index of the first).
\<close>

definition attempts ::
  "'v json_lib \<Rightarrow> (string \<times> bool \<times> gotype) list \<Rightarrow> 'v goval list \<Rightarrow> string list
    \<Rightarrow> ('v goval \<times> error option) list" where
  "attempts lib fs vs items = map (\<lambda>(f, v, d). unmarshal lib (snd (snd f)) d v) (zip fs (zip vs items))"

definition failed_at :: "nat \<Rightarrow> ('v goval \<times> error option) list \<Rightarrow> error list" where
  "failed_at i rs = concat (map (\<lambda>(k, r). case snd r of None \<Rightarrow> [] | Some e \<Rightarrow> [FieldDecodeFailed k e])
      (zip [i ..< i + length rs] rs))"


section \<open>Notions for reading a run of the scanner\<close>






























section \<open>Properties of the scanner on string literals\<close>

lemma not_space_quote: "\<not> isSpace quote_ch"
  by (simp add: isSpace_def quote_ch_def)

lemma checkValid_error: "checkValid (stateError, ps) xs = False"
  by (cases xs) (simp_all add: eof_def)

lemma checkValid_endTop: "checkValid (stateEndTop, []) xs = list_all isSpace xs"
  by (induction xs) (simp_all add: eof_def stateEndTop_fn_def checkValid_error)

lemma checkValid_endValue_top: "checkValid (stateEndValue, []) xs = list_all isSpace xs"
  by (cases xs) (simp_all add: eof_def stateEndTop_fn_def checkValid_error checkValid_endTop isSpace_def)

lemma in_string_accepts:
  "string_body body \<Longrightarrow> checkValid (stateInString, []) (body @ quote_ch # tail) = list_all isSpace tail"
proof (induction body rule: string_body.induct)
  case 1
  then show ?case by (simp add: stateInString_fn_def checkValid_endValue_top)
next
  case (2 c cs)
  show ?case
  proof (cases "c = backslash")
    case False
    with 2 show ?thesis by (simp add: stateInString_fn_def)
  next
    case True
    with 2(4) obtain e r where cs: "cs = e # r" by (cases cs) auto
    show ?thesis
    proof (cases "isSimpleEscape e")
      case simple: True
      with 2 True cs have "string_body r" by simp
      with 2(1)[OF True cs simple] have "checkValid (stateInString, []) (r @ quote_ch # tail) = list_all isSpace tail" by simp
      with True cs simple show ?thesis
        by (simp add: stateInString_fn_def stateInStringEsc_fn_def isSimpleEscape_def backslash_def quote_ch_def)
    next
      case False
      with 2(4) True cs have u: "e = CHR ''u''" by (simp split: if_splits)
      with 2(4) True cs False obtain h1 h2 h3 h4 r' where
        r: "r = h1 # h2 # h3 # h4 # r'" and hx: "isHex h1" "isHex h2" "isHex h3" "isHex h4" and b: "string_body r'"
        by (auto split: list.splits)
      from 2(2)[OF True cs False u] r b
      have "checkValid (stateInString, []) (r' @ quote_ch # tail) = list_all isSpace tail" by simp
      with True cs u r hx show ?thesis
        by (simp add: stateInString_fn_def stateInStringEsc_fn_def hex_then_def backslash_def quote_ch_def)
    qed
  qed
qed


lemma checkValid_inString_nil: "eof (stateInString, ps) = scanError"
  by (simp add: eof_def stateInString_fn_def quote_ch_def backslash_def byte_def)

lemma checkValid_esc_nil: "eof (stateInStringEsc, ps) = scanError"
  by (simp add: eof_def stateInStringEsc_fn_def quote_ch_def backslash_def scan_fail_def)

lemma not_hex_space: "\<not> isHex CHR '' ''"
  by (simp add: isHex_def isDigit_def)

lemma checkValid_escU:
  "checkValid (stateInStringEscU, []) r \<longleftrightarrow>
    (\<exists>h1 h2 h3 h4 r'. r = h1 # h2 # h3 # h4 # r' \<and> isHex h1 \<and> isHex h2 \<and> isHex h3 \<and> isHex h4
       \<and> checkValid (stateInString, []) r')"
proof (cases r)
  case Nil
  then show ?thesis by (simp add: eof_def hex_then_def not_hex_space scan_fail_def)
next
  case r1: (Cons h1 t1)
  show ?thesis
  proof (cases t1)
    case Nil
    with r1 show ?thesis by (simp add: eof_def hex_then_def not_hex_space scan_fail_def)
  next
    case r2: (Cons h2 t2)
    show ?thesis
    proof (cases t2)
      case Nil
      with r1 r2 show ?thesis by (simp add: eof_def hex_then_def not_hex_space scan_fail_def)
    next
      case r3: (Cons h3 t3)
      show ?thesis
      proof (cases t3)
        case Nil
        with r1 r2 r3 show ?thesis by (simp add: eof_def hex_then_def not_hex_space scan_fail_def)
      next
        case (Cons h4 t4)
        with r1 r2 r3 show ?thesis by (simp add: hex_then_def scan_fail_def checkValid_error)
      qed
    qed
  qed
qed

lemma in_string_only:
  "checkValid (stateInString, []) xs \<Longrightarrow>
    \<exists>body tail. xs = body @ quote_ch # tail \<and> string_body body \<and> list_all isSpace tail"
proof (induction xs rule: string_body.induct)
  case 1
  then show ?case by (simp add: checkValid_inString_nil)
next
  case (2 c cs)
  show ?case
  proof (cases "c = backslash")
    case True
    show ?thesis
    proof (cases cs)
      case Nil
      with 2(4) True show ?thesis
        by (simp add: stateInString_fn_def backslash_def quote_ch_def checkValid_esc_nil)
    next
      case (Cons e r)
      show ?thesis
      proof (cases "isSimpleEscape e")
        case simple: True
        with 2(4) True Cons have "checkValid (stateInString, []) r"
          by (simp add: stateInString_fn_def stateInStringEsc_fn_def isSimpleEscape_def backslash_def quote_ch_def)
        from 2(1)[OF True Cons simple this] obtain body tail where
          "r = body @ quote_ch # tail" "string_body body" "list_all isSpace tail" by blast
        with True Cons simple have
          "c # cs = (backslash # e # body) @ quote_ch # tail \<and> string_body (backslash # e # body) \<and> list_all isSpace tail"
          by simp
        then show ?thesis by blast
      next
        case False
        with 2(4) True Cons have u: "e = CHR ''u''" and cu: "checkValid (stateInStringEscU, []) r"
          by (auto simp: stateInString_fn_def stateInStringEsc_fn_def isSimpleEscape_def backslash_def
                quote_ch_def scan_fail_def checkValid_error split: if_splits)
        from cu obtain h1 h2 h3 h4 r' where
          r: "r = h1 # h2 # h3 # h4 # r'" and hx: "isHex h1" "isHex h2" "isHex h3" "isHex h4"
          and cr: "checkValid (stateInString, []) r'"
          unfolding checkValid_escU by blast
        from 2(2)[OF True Cons False u r refl refl refl cr] obtain body tail where
          "r' = body @ quote_ch # tail" "string_body body" "list_all isSpace tail" by blast
        with True Cons False u r hx have
          "c # cs = (backslash # e # h1 # h2 # h3 # h4 # body) @ quote_ch # tail
            \<and> string_body (backslash # e # h1 # h2 # h3 # h4 # body) \<and> list_all isSpace tail"
          by simp
        then show ?thesis by blast
      qed
    qed
  next
    case False
    show ?thesis
    proof (cases "c = quote_ch")
      case True
      with 2(4) have "list_all isSpace cs"
        by (simp add: stateInString_fn_def checkValid_endValue_top)
      with True have "c # cs = [] @ quote_ch # cs \<and> string_body [] \<and> list_all isSpace cs" by simp
      then show ?thesis by blast
    next
      case nq: False
      with 2(4) False have ok: "0x20 \<le> byte c" and rest: "checkValid (stateInString, []) cs"
        by (auto simp: stateInString_fn_def scan_fail_def checkValid_error split: if_splits)
      from 2(3)[OF False rest] obtain body tail where
        "cs = body @ quote_ch # tail" "string_body body" "list_all isSpace tail" by blast
      with False nq ok have
        "c # cs = (c # body) @ quote_ch # tail \<and> string_body (c # body) \<and> list_all isSpace tail"
        by simp
      then show ?thesis by blast
    qed
  qed
qed

lemma Valid_quoted:
  "Valid (quote_ch # rest) \<and> last (quote_ch # rest) = quote_ch \<longleftrightarrow>
     (\<exists>body. rest = body @ [quote_ch] \<and> string_body body)"
proof
  assume a: "Valid (quote_ch # rest) \<and> last (quote_ch # rest) = quote_ch"
  then have "checkValid (stateInString, []) rest"
    by (simp add: Valid_def newScanner_def stateBeginValue_fn_def not_space_quote quote_ch_def isSpace_def)
  then obtain body tail where bt: "rest = body @ quote_ch # tail" "string_body body" "list_all isSpace tail"
    using in_string_only by blast
  have "tail = []"
  proof (rule ccontr)
    assume "tail \<noteq> []"
    with bt(1) have "last (quote_ch # rest) = last tail" by simp
    moreover from bt(3) \<open>tail \<noteq> []\<close> have "isSpace (last tail)"
      by (simp add: list_all_iff)
    ultimately show False using a not_space_quote by simp
  qed
  with bt show "\<exists>body. rest = body @ [quote_ch] \<and> string_body body" by blast
next
  assume "\<exists>body. rest = body @ [quote_ch] \<and> string_body body"
  then obtain body where b: "rest = body @ [quote_ch]" "string_body body" by blast
  from in_string_accepts[OF b(2), of "[]"] b(1)
  have "checkValid (stateInString, []) rest" by simp
  with b(1) show "Valid (quote_ch # rest) \<and> last (quote_ch # rest) = quote_ch"
    by (simp add: Valid_def newScanner_def stateBeginValue_fn_def not_space_quote quote_ch_def isSpace_def)
qed


section \<open>The error-code catalog: server errors\<close>

lemma IsServerError_sint: "IsServerError c \<longleftrightarrow> - 32099 < sint c \<and> sint c < - 32000"
  by (auto simp: IsServerError_def word_sless_alt)

text \<open>
  C9. \<^verbatim>\<open>IsServerError\<close> is documented as identifying the server errors of the
  JSON-RPC 2.0 error code scheme, whose reserved band is -32099 to -32000 with both ends.
  The comparison in the code is strict on both sides: the two ends of the band, among them
  the catalog's own \<^verbatim>\<open>InvalidInput\<close> (-32000), are not recognised, while the
  codes strictly inside (for instance -32050) are.
\<close>

theorem IsServerError_band_ends:
  "\<not> IsServerError InvalidInput \<and> \<not> IsServerError (- 32000) \<and> \<not> IsServerError (- 32099)
   \<and> IsServerError (- 32050) \<and> IsServerError (- 32001) \<and> IsServerError (- 32098)"
  by (simp add: IsServerError_sint InvalidInput_def)

section \<open>Params: the shape check\<close>

text \<open>
  C10. \<^verbatim>\<open>Params.UnmarshalJSON\<close> accepts exactly the non-empty byte sequences whose
  first byte is an opening bracket or an opening brace, and stores an accepted sequence as
  it is (a rejected one leaves the receiver unchanged). Nothing after the first byte is
  looked at: the two bytes \<^verbatim>\<open>["\<close> are accepted and stored although they are not
  valid JSON.
\<close>

theorem Params_UnmarshalJSON_first_byte:
  "(snd (Params_UnmarshalJSON p data) = None \<longleftrightarrow>
      data \<noteq> [] \<and> (hd data = CHR ''['' \<or> hd data = CHR ''{''))
   \<and> fst (Params_UnmarshalJSON p data) = (if snd (Params_UnmarshalJSON p data) = None then data else p)
   \<and> Params_UnmarshalJSON p [CHR ''['', quote_ch] = ([CHR ''['', quote_ch], None)
   \<and> \<not> Valid [CHR ''['', quote_ch]"
proof -
  have "\<not> Valid [CHR ''['', quote_ch]"
    by (simp add: Valid_def newScanner_def stateBeginValue_fn_def isSpace_def quote_ch_def
        pushParseState_def maxNestingDepth_def stateBeginValueOrEmpty_fn_def eof_def
        stateInString_fn_def backslash_def byte_def)
  then show ?thesis
    by (simp add: Params_UnmarshalJSON_def)
qed

theorem Params_UnmarshalJSON_first_byte_witness:
  "snd (Params_UnmarshalJSON [] ''[1, 2]'') = None \<and> fst (Params_UnmarshalJSON [] ''[1, 2]'') = ''[1, 2]''
   \<and> snd (Params_UnmarshalJSON ''{}'' ''12'') \<noteq> None \<and> fst (Params_UnmarshalJSON ''{}'' ''12'') = ''{}''"
  using Params_UnmarshalJSON_first_byte [of "[]" "''[1, 2]''"]
    Params_UnmarshalJSON_first_byte [of "''{}''" "''12''"]
  by simp

section \<open>Request identifiers: the validity grammar\<close>

text \<open>
  C4, as stated, bounds every accepted non-empty encoding by 66 bytes. The bound in the code
  is \<^verbatim>\<open>maxIDLength = 32*2 + 2 + 2\<close>, that is 68: an id of 67 digits is accepted.
\<close>

theorem IsValid_67_digits_counterexample:
  "IsValid (replicate 67 CHR ''7'') \<and> length (replicate 67 CHR ''7'') > 66"
  by code_simp

text \<open>
  C4, amended. \<^verbatim>\<open>IsValid\<close>, which \<^verbatim>\<open>RawID.MarshalJSON\<close> and
  \<^verbatim>\<open>RawID.UnmarshalJSON\<close> both apply, accepts exactly: the zero-length encoding, and
  among the encodings of at most 68 bytes the literal \<^verbatim>\<open>null\<close>, the JSON string
  literals (a quote, a body without raw control bytes or unescaped quotes in which every
  backslash starts an escape, a quote) and the non-empty sequences of decimal digits. So a
  float, a signed or exponent number, a boolean, an array, an object and an id with leading
  or trailing white space are all rejected.
\<close>

theorem IsValid_grammar:
  "(IsValid rid \<longleftrightarrow>
      rid = [] \<or>
      (length rid \<le> 68 \<and>
        (rid = ''null''
         \<or> (\<exists>body. rid = quote_ch # body @ [quote_ch] \<and> string_body body)
         \<or> (rid \<noteq> [] \<and> list_all isDigit rid))))
   \<and> RawID_MarshalJSON rid = (if IsValid rid then Inr rid else Inl (InvalidID rid))
   \<and> RawID_UnmarshalJSON (Some old) rid = (Some rid, if IsValid rid then None else Some (InvalidID rid))
   \<and> \<not> IsValid ''1.5'' \<and> \<not> IsValid ''-1'' \<and> \<not> IsValid ''1e9'' \<and> \<not> IsValid ''true''
   \<and> \<not> IsValid ''false'' \<and> \<not> IsValid ''[1]'' \<and> \<not> IsValid ''{}''
   \<and> \<not> IsValid '' 1'' \<and> \<not> IsValid ''1 '' \<and> \<not> IsValid (''null'' @ [CHR 0x0A])"
proof -
  have grammar: "IsValid rid \<longleftrightarrow>
      rid = [] \<or>
      (length rid \<le> 68 \<and>
        (rid = ''null''
         \<or> (\<exists>body. rid = quote_ch # body @ [quote_ch] \<and> string_body body)
         \<or> (rid \<noteq> [] \<and> list_all isDigit rid)))"
  proof (cases rid)
    case Nil
    then show ?thesis by (simp add: IsValid_def)
  next
    case (Cons c rest)
    show ?thesis
    proof (cases "c = quote_ch")
      case True
      have nd: "\<not> isDigit quote_ch" by (simp add: isDigit_def quote_ch_def)
      have nn: "quote_ch \<noteq> CHR ''n''" by (simp add: quote_ch_def)
      from Valid_quoted [of rest] have
        "(last (quote_ch # rest) = quote_ch \<and> Valid (quote_ch # rest))
          = (\<exists>body. rest = body @ [quote_ch] \<and> string_body body)"
        by blast
      moreover have "(\<exists>body. rest = body @ [quote_ch] \<and> string_body body) \<Longrightarrow> length rest \<noteq> 0"
        by auto
      ultimately show ?thesis
        using Cons True nd nn by (auto simp: IsValid_def maxIDLength_def)
    next
      case False
      with Cons show ?thesis
        by (auto simp: IsValid_def maxIDLength_def)
    qed
  qed
  have examples: "\<not> IsValid ''1.5'' \<and> \<not> IsValid ''-1'' \<and> \<not> IsValid ''1e9'' \<and> \<not> IsValid ''true''
   \<and> \<not> IsValid ''false'' \<and> \<not> IsValid ''[1]'' \<and> \<not> IsValid ''{}''
   \<and> \<not> IsValid '' 1'' \<and> \<not> IsValid ''1 '' \<and> \<not> IsValid (''null'' @ [CHR 0x0A])"
    by (simp add: IsValid_def maxIDLength_def quote_ch_def isDigit_def)
  have marshal: "RawID_MarshalJSON rid = (if IsValid rid then Inr rid else Inl (InvalidID rid))"
    by (simp add: RawID_MarshalJSON_def)
  have unmarshal: "RawID_UnmarshalJSON (Some old) rid
      = (Some rid, if IsValid rid then None else Some (InvalidID rid))"
    by (simp add: RawID_UnmarshalJSON_def)
  from grammar marshal unmarshal examples show ?thesis by blast
qed

theorem IsValid_grammar_witness:
  "IsValid ''12345'' \<and> IsValid ''null'' \<and> IsValid [quote_ch, CHR ''a'', backslash, CHR ''n'', quote_ch]
   \<and> \<not> IsValid ''7x''
   \<and> RawID_UnmarshalJSON (Some []) ''7x'' = (Some ''7x'', Some (InvalidID ''7x''))"
proof -
  have a: "IsValid ''12345''"
    using IsValid_grammar [of "''12345''"] by (simp add: isDigit_def)
  have b: "IsValid ''null''"
    using IsValid_grammar [of "''null''"] by simp
  have c: "IsValid [quote_ch, CHR ''a'', backslash, CHR ''n'', quote_ch]"
  proof -
    have sb: "string_body [CHR ''a'', backslash, CHR ''n'']"
      by (simp add: backslash_def quote_ch_def byte_def isSimpleEscape_def)
    have ex: "\<exists>body. [quote_ch, CHR ''a'', backslash, CHR ''n'', quote_ch] = quote_ch # body @ [quote_ch]
        \<and> string_body body"
      by (rule exI [of _ "[CHR ''a'', backslash, CHR ''n'']"]) (use sb in \<open>simp del: string_body.simps\<close>)
    have len: "length [quote_ch, CHR ''a'', backslash, CHR ''n'', quote_ch] \<le> 68" by simp
    from IsValid_grammar [of "[quote_ch, CHR ''a'', backslash, CHR ''n'', quote_ch]", THEN conjunct1] ex len
    show ?thesis by blast
  qed
  have d: "\<not> IsValid ''7x''
      \<and> RawID_UnmarshalJSON (Some []) ''7x'' = (Some ''7x'', Some (InvalidID ''7x''))"
    using IsValid_grammar [of "''7x''" "[]"] by (simp add: quote_ch_def isDigit_def)
  from a b c d show ?thesis by blast
qed

section \<open>Responding\<close>

lemma Message_InternalError: "ErrorConst_Message InternalError = ''Internal error''"
  by (simp add: ErrorConst_Message_def InternalError_def ParseErr_def InvalidRequest_def
      MethodNotFound_def InvalidParams_def)

lemma Code_InternalError: "ErrorConst_Code InternalError = - 32603"
  by (simp add: ErrorConst_Code_def InternalError_def)

text \<open>
  C6, as stated, promises a well-formed outbound message for every message that is not a
  response. A notification is such a message (the decoder returns one for a request without
  id), and \<^verbatim>\<open>Respond\<close> answers it with a response that carries the empty id:
  the message violates the invariant that a response is never a notification, and
  \<^verbatim>\<open>MarshalJSON\<close> returns the error of \<^verbatim>\<open>Check\<close> for it.
\<close>

theorem Respond_to_notification_counterexample:
  \<open>Message_UnmarshalJSON ''{"jsonrpc":"2.0","method":"foobar"}''
     = Inr \<lparr>Request = Some \<lparr>Method = ''foobar'', Params = []\<rparr>, Response = None, ID = []\<rparr>
   \<and> Message_Respond (\<lambda>x. Inr ''19'') \<lparr>Request = Some \<lparr>Method = ''foobar'', Params = []\<rparr>, Response = None, ID = []\<rparr> (19::nat)
       = Inr \<lparr>Request = None, Response = Some \<lparr>Result = Some ''19'', Error = None\<rparr>, ID = []\<rparr>
   \<and> Message_MarshalJSON \<lparr>Request = None, Response = Some \<lparr>Result = Some ''19'', Error = None\<rparr>, ID = []\<rparr>
       = (''{"result":19,"jsonrpc":"2.0"}'', Some ResponseIsNotification)\<close>
  by code_simp

text \<open>
  C6, amended. For every message \<open>m\<close> that is not itself a response,
  \<^verbatim>\<open>m.Respond(payload)\<close> does not panic and returns a message without request, with
  the id of \<open>m\<close> and a response: the encoded payload as result when
  \<^verbatim>\<open>json.Marshal\<close> succeeds, else an error object with the code -32603 and the message
  \<^verbatim>\<open>Internal error: failed to encode response: \<close> followed by the text of the
  encoding error. The returned message passes \<^verbatim>\<open>Check\<close> exactly when \<open>m\<close> has an
  id, that is when \<open>m\<close> is not a notification.
\<close>

theorem Message_Respond_never_fails:
  assumes "Response m = None"
  shows "\<exists>m'. Message_Respond json_Marshal m data = Inr m'
      \<and> ID m' = ID m \<and> Request m' = None
      \<and> Response m' = Some (case json_Marshal data of
             Inr x \<Rightarrow> \<lparr>Result = Some x, Error = None\<rparr>
           | Inl cause \<Rightarrow> \<lparr>Result = None,
               Error = Some \<lparr>Code = - 32603,
                 Message = ''Internal error'' @ '': '' @ ''failed to encode response: '' @ cause,
                 Data = []\<rparr>\<rparr>)
      \<and> (Check (to_jsonMessage m') = None \<longleftrightarrow> \<not> IsNotification (ID m))"
  using assms
  by (auto simp: Message_Respond_def Respond_def RespondSuccess_def AnnotatedErrorObj_def
      Message_InternalError Code_InternalError Check_def to_jsonMessage_def split: sum.splits)

theorem Message_Respond_never_fails_witness:
  "\<exists>m'. Message_Respond (\<lambda>x::nat. Inl ''unsupported type'')
        \<lparr>Request = Some \<lparr>Method = ''subtract'', Params = ''[42,23]''\<rparr>, Response = None, ID = ''1''\<rparr> 7 = Inr m'
      \<and> ID m' = ''1''
      \<and> Response m' = Some \<lparr>Result = None,
               Error = Some \<lparr>Code = - 32603,
                 Message = ''Internal error: failed to encode response: unsupported type'',
                 Data = []\<rparr>\<rparr>
      \<and> Check (to_jsonMessage m') = None"
proof -
  have "Response \<lparr>Request = Some \<lparr>Method = ''subtract'', Params = ''[42,23]''\<rparr>, Response = None, ID = ''1''\<rparr> = None"
    by simp
  from Message_Respond_never_fails [OF this, of "\<lambda>x::nat. Inl ''unsupported type''" 7]
  obtain m' where "Message_Respond (\<lambda>x::nat. Inl ''unsupported type'')
        \<lparr>Request = Some \<lparr>Method = ''subtract'', Params = ''[42,23]''\<rparr>, Response = None, ID = ''1''\<rparr> 7 = Inr m'
      \<and> ID m' = ''1''
      \<and> Response m' = Some \<lparr>Result = None,
               Error = Some \<lparr>Code = - 32603,
                 Message = ''Internal error: failed to encode response: unsupported type'',
                 Data = []\<rparr>\<rparr>
      \<and> Check (to_jsonMessage m') = None"
    by (auto simp: IsNotification_def)
  then show ?thesis by blast
qed

section \<open>The params decoder: empty params\<close>

lemma TrimLeft_all: "list_all (\<lambda>c. c \<in> set cs) p \<Longrightarrow> TrimLeft p cs = []"
  by (induction p) (auto simp: TrimLeft_def)

text \<open>
  C5. Applied to empty params (no bytes, or white space only), the decoder for a
  destination type returns the zero value of the type, without error when the type is
  \<^verbatim>\<open>struct{}\<close> itself and with the error \<^verbatim>\<open>empty params data\<close> for every other
  type: any other struct type (also a defined type without fields, and a pointer to
  \<^verbatim>\<open>struct{}\<close>), any slice and any other type. The library is not called.
\<close>

theorem ParamsDecoder_empty_params:
  assumes "list_all isSpace p"
  shows "ParamsDecoder lib typ p = Inr (zero typ, if typ = emptyStruct then None else Some EmptyParamsData)"
proof -
  from assms have "list_all (\<lambda>c. c \<in> set [CHR 0x09, CHR 0x0A, CHR 0x0D, CHR '' '']) p"
    by (auto simp: list_all_iff isSpace_def)
  then have "TrimLeft p [CHR 0x09, CHR 0x0A, CHR 0x0D, CHR '' ''] = []"
    by (rule TrimLeft_all)
  then show ?thesis
    by (simp add: ParamsDecoder_def Let_def)
qed

theorem ParamsDecoder_empty_params_witness:
  "ParamsDecoder text_lib emptyStruct [] = Inr (StructV [], None)
   \<and> ParamsDecoder text_lib TestObj [] = Inr (StructV [Zero, Zero], Some EmptyParamsData)
   \<and> ParamsDecoder text_lib (TNamed ''Empty'' (TStruct [])) [] = Inr (StructV [], Some EmptyParamsData)
   \<and> ParamsDecoder text_lib (TPointer emptyStruct) [] = Inr (Zero, Some EmptyParamsData)
   \<and> ParamsDecoder text_lib (TSlice (TOther ''any'')) [] = Inr (Zero, Some EmptyParamsData)
   \<and> ParamsDecoder text_lib (TOther ''string'') '' '' = Inr (Zero, Some EmptyParamsData)"
  using ParamsDecoder_empty_params [of "[]" text_lib emptyStruct]
    ParamsDecoder_empty_params [of "[]" text_lib TestObj]
    ParamsDecoder_empty_params [of "[]" text_lib "TNamed ''Empty'' (TStruct [])"]
    ParamsDecoder_empty_params [of "[]" text_lib "TPointer emptyStruct"]
    ParamsDecoder_empty_params [of "[]" text_lib "TSlice (TOther ''any'')"]
    ParamsDecoder_empty_params [of "'' ''" text_lib "TOther ''string''"]
  by (simp add: emptyStruct_def TestObj_def isSpace_def)

section \<open>The params decoder: positional binding\<close>

lemma failures_opt_Join:
  "failures_opt (errors_Join [err, Some (FieldDecodeFailed i e)]) = failures_opt err @ [FieldDecodeFailed i e]"
  by (cases err) (simp_all add: failures_opt_def errors_Join_def List.map_filter_simps)

lemma bind_fields_exported:
  assumes "list_all (\<lambda>f. fst (snd f)) fs" "length vs = length fs" "length items = length fs"
  shows "\<exists>err'. bind_fields lib i fs vs items done err
      = Inr (done @ map fst (attempts lib fs vs items), err')
    \<and> failures_opt err' = failures_opt err @ failed_at i (attempts lib fs vs items)"
  using assms
proof (induction fs arbitrary: i vs items "done" err)
  case Nil
  then show ?case by (simp add: attempts_def failed_at_def)
next
  case (Cons f fs)
  from Cons.prems obtain v vs' where vs: "vs = v # vs'" by (cases vs) auto
  from Cons.prems obtain d items' where items: "items = d # items'" by (cases items) auto
  from Cons.prems have ex: "fst (snd f)" and rest: "list_all (\<lambda>f. fst (snd f)) fs" by auto
  from Cons.prems vs items have l1: "length vs' = length fs" and l2: "length items' = length fs" by auto
  obtain v' fe where r: "unmarshal lib (snd (snd f)) d v = (v', fe)" by (cases "unmarshal lib (snd (snd f)) d v")
  have up: "[i ..< i + Suc (length fs)] = i # [Suc i ..< Suc i + length fs]"
    by (simp add: upt_rec)
  show ?case
  proof (cases fe)
    case None
    from Cons.IH[OF rest l1 l2, of "Suc i" "done @ [v']" err] obtain err' where
      "bind_fields lib (Suc i) fs vs' items' (done @ [v']) err
        = Inr ((done @ [v']) @ map fst (attempts lib fs vs' items'), err')"
      "failures_opt err' = failures_opt err @ failed_at (Suc i) (attempts lib fs vs' items')"
      by blast
    with vs items ex r None l1 l2 up show ?thesis
      by (simp add: attempts_def failed_at_def)
  next
    case (Some e)
    from Cons.IH[OF rest l1 l2, of "Suc i" "done @ [v']" "errors_Join [err, Some (FieldDecodeFailed i e)]"]
    obtain err' where
      "bind_fields lib (Suc i) fs vs' items' (done @ [v']) (errors_Join [err, Some (FieldDecodeFailed i e)])
        = Inr ((done @ [v']) @ map fst (attempts lib fs vs' items'), err')"
      "failures_opt err' = failures_opt (errors_Join [err, Some (FieldDecodeFailed i e)])
          @ failed_at (Suc i) (attempts lib fs vs' items')"
      by blast
    with vs items ex r Some l1 l2 up show ?thesis
      by (simp add: attempts_def failed_at_def failures_opt_Join)
  qed
qed


lemma zero_Struct:
  "Kind_of t = Struct \<Longrightarrow> zero t = (StructV (map (\<lambda>f. zero (snd (snd f))) (fields_of t)) :: 'v goval)"
  by (induction t) simp_all

lemma TrimLeft_bracket: "hd p = CHR ''['' \<Longrightarrow> p \<noteq> [] \<Longrightarrow> TrimLeft p [CHR 0x09, CHR 0x0A, CHR 0x0D, CHR '' ''] = p"
  by (cases p) (auto simp: TrimLeft_def)

lemma ParamsDecoder_positional:
  fixes lib :: "'v json_lib"
  assumes kind: "Kind_of typ = Struct"
    and p: "p \<noteq> []" "hd p = CHR ''[''"
    and items: "raw_items lib p = Inr items"
  shows "length items \<noteq> length (fields_of typ) \<Longrightarrow>
      ParamsDecoder lib typ p = Inr (zero typ, Some (CountMismatch (length (fields_of typ)) (length items)))"
    and "length items = length (fields_of typ) \<Longrightarrow> list_all (\<lambda>f. fst (snd f)) (fields_of typ) \<Longrightarrow>
      \<exists>err. ParamsDecoder lib typ p
          = Inr (StructV (map fst (attempts lib (fields_of typ) (struct_fields (zero typ :: 'v goval)) items)), err)
        \<and> failures_opt err = failed_at 0 (attempts lib (fields_of typ) (struct_fields (zero typ :: 'v goval)) items)"
proof -
  have z: "zero typ = (StructV (map (\<lambda>f. zero (snd (snd f))) (fields_of typ)) :: 'v goval)"
    using kind by (rule zero_Struct)
  have trim: "TrimLeft p [CHR 0x09, CHR 0x0A, CHR 0x0D, CHR '' ''] = p"
    using p by (simp add: TrimLeft_bracket)
  have hdp: "hd p \<noteq> CHR ''{''" using p by simp
  {
    assume "length items \<noteq> length (fields_of typ)"
    then show "ParamsDecoder lib typ p = Inr (zero typ, Some (CountMismatch (length (fields_of typ)) (length items)))"
      using kind p items trim hdp
      by (simp add: ParamsDecoder_def Let_def z struct_fields_def)
  }
  {
    assume len: "length items = length (fields_of typ)" and ex: "list_all (\<lambda>f. fst (snd f)) (fields_of typ)"
    have lv: "length (struct_fields (zero typ :: 'v goval)) = length (fields_of typ)"
      by (simp add: z struct_fields_def)
    from bind_fields_exported [OF ex lv len, of lib 0 "[]" None]
    obtain err' where b: "bind_fields lib 0 (fields_of typ) (struct_fields (zero typ :: 'v goval)) items [] None
        = Inr ([] @ map fst (attempts lib (fields_of typ) (struct_fields (zero typ :: 'v goval)) items), err')"
      and f: "failures_opt err' = failures_opt None @ failed_at 0 (attempts lib (fields_of typ) (struct_fields (zero typ :: 'v goval)) items)"
      by blast
    have "ParamsDecoder lib typ p
          = Inr (StructV (map fst (attempts lib (fields_of typ) (struct_fields (zero typ :: 'v goval)) items)), err')"
      using kind p items trim hdp len b
      by (simp add: ParamsDecoder_def Let_def)
    moreover from f have "failures_opt err' = failed_at 0 (attempts lib (fields_of typ) (struct_fields (zero typ :: 'v goval)) items)"
      by (simp add: failures_opt_def)
    ultimately show "\<exists>err. ParamsDecoder lib typ p
          = Inr (StructV (map fst (attempts lib (fields_of typ) (struct_fields (zero typ :: 'v goval)) items)), err)
        \<and> failures_opt err = failed_at 0 (attempts lib (fields_of typ) (struct_fields (zero typ :: 'v goval)) items)"
      by blast
  }
qed


text \<open>
  C3. For a struct whose fields are all exported the decoder does what the claim says
  (\<open>ParamsDecoder_positional\<close>): a count mismatch when the number of items differs from
  the number of fields, else item \<open>i\<close> decoded into field \<open>i\<close>, every pair attempted
  and every failure joined. But the number of fields counts the fields that are not
  exported too, and for such a field \<^verbatim>\<open>v.Field(i).Addr().Interface()\<close> panics: with
  the fields \<^verbatim>\<open>Foo string\<close> and \<^verbatim>\<open>bar int\<close> the params \<^verbatim>\<open>["hello",1234]\<close> are
  not bound and no error is returned; the call panics. The other conjuncts run the decoder
  on the struct of the repository's tests.
\<close>

theorem ParamsDecoder_unexported_field_panics:
  \<open>ParamsDecoder text_lib (TStruct [(''Foo'', True, TOther ''string''), (''bar'', False, TOther ''int'')])
      ''["hello",1234]'' = Inl UnexportedField
   \<and> ParamsDecoder text_lib TestObj ''["hello",1234]''
      = Inr (StructV [LibV ''"hello"'', LibV ''1234''], None)
   \<and> ParamsDecoder text_lib TestObj ''["hello", 1234, "extra"]''
      = Inr (StructV [Zero, Zero], Some (CountMismatch 2 3))
   \<and> ParamsDecoder text_lib TestObj ''["hello"]''
      = Inr (StructV [Zero, Zero], Some (CountMismatch 2 1))
   \<and> ParamsDecoder text_lib TestObj ''[9000, "x"]''
      = Inr (StructV [Zero, Zero],
          Some (Join [Join [FieldDecodeFailed 0 (UnmarshalTypeError ''string'')],
                      FieldDecodeFailed 1 (UnmarshalTypeError ''int'')]))\<close>
  by code_simp

section \<open>Decoding a message\<close>

text \<open>
  C2. The version marker is checked by \<^verbatim>\<open>V2.UnmarshalText\<close>, which the library
  calls only for a \<^verbatim>\<open>jsonrpc\<close> member that is a string: a message without the member,
  or with \<^verbatim>\<open>null\<close> for it, is accepted. A version other than 2.0 is refused, and so is
  a response without id.
\<close>

theorem decode_accepts_missing_version:
  \<open>Message_UnmarshalJSON ''{"method":"foo"}''
     = Inr \<lparr>Request = Some \<lparr>Method = ''foo'', Params = []\<rparr>, Response = None, ID = []\<rparr>
   \<and> Message_UnmarshalJSON ''{"jsonrpc":null,"method":"foo","id":7}''
     = Inr \<lparr>Request = Some \<lparr>Method = ''foo'', Params = []\<rparr>, Response = None, ID = ''7''\<rparr>
   \<and> Message_UnmarshalJSON ''{"jsonrpc":"1.0","method":"foo"}'' = Inl (InvalidVersion ''1.0'')
   \<and> Message_UnmarshalJSON ''{"jsonrpc":"2.0","result":1}'' = Inl ResponseIsNotification\<close>
  by code_simp

text \<open>
  C7, as stated, has the decoder refuse a response with both a result and an error, and one
  with neither. \<^verbatim>\<open>Check\<close> looks at neither member: both messages are accepted (a
  result that is \<^verbatim>\<open>null\<close> decodes to an absent result).
\<close>

theorem decode_result_and_error_counterexample:
  \<open>Message_UnmarshalJSON ''{"jsonrpc":"2.0","result":19,"error":{"code":-32601,"message":"no"},"id":1}''
     = Inr \<lparr>Request = None,
            Response = Some \<lparr>Result = Some ''19'',
              Error = Some \<lparr>Code = - 32601, Message = ''no'', Data = []\<rparr>\<rparr>,
            ID = ''1''\<rparr>
   \<and> Message_UnmarshalJSON ''{"jsonrpc":"2.0","result":null,"id":1}''
     = Inr \<lparr>Request = None, Response = Some \<lparr>Result = None, Error = None\<rparr>, ID = ''1''\<rparr>\<close>
  by code_simp

text \<open>
  C7, amended. Every message that the decoder accepts is either a response or a request and
  not both; a response that it accepts has an id. Whether the response has a result, an
  error, both or none is not checked.
\<close>

theorem decoded_Response_invariants:
  assumes "Message_UnmarshalJSON data = Inr m"
  shows "(Response m \<noteq> None \<longrightarrow> Request m = None \<and> \<not> IsNotification (ID m))
       \<and> (Response m = None \<longrightarrow> Request m \<noteq> None)"
  using assms
  by (auto simp: Message_UnmarshalJSON_def Check_def split: sum.splits option.splits if_splits)

theorem decoded_Response_invariants_witness:
  \<open>Response \<lparr>Request = None, Response = Some \<lparr>Result = Some ''19'', Error = None\<rparr>, ID = ''1''\<rparr> \<noteq> None
   \<and> Request \<lparr>Request = None, Response = Some \<lparr>Result = Some ''19'', Error = None\<rparr>, ID = ''1''\<rparr> = None
   \<and> \<not> IsNotification (ID \<lparr>Request = None, Response = Some \<lparr>Result = Some ''19'', Error = None\<rparr>, ID = ''1''\<rparr>)\<close>
proof -
  have d: \<open>Message_UnmarshalJSON ''{"jsonrpc":"2.0","result":19,"id":1}''
      = Inr \<lparr>Request = None, Response = Some \<lparr>Result = Some ''19'', Error = None\<rparr>, ID = ''1''\<rparr>\<close>
    by code_simp
  from decoded_Response_invariants [OF d] show ?thesis by simp
qed

section \<open>Encoding a message\<close>

text \<open>
  C8. Encoding a message that has both a request and a response fails, and no serialized
  output is emitted: \<^verbatim>\<open>MarshalJSON\<close> returns an error for every such message (the
  error of the serializer when serializing fails, and else the error of \<^verbatim>\<open>Check\<close>,
  that a message is a request or a response but not both), and \<^verbatim>\<open>json.Marshal(&m)\<close>
  returns that error, wrapped as the error of a marshaler, and no bytes. The method
  serializes first and checks afterwards; what it has serialized by then is dropped by the
  library and never reaches the caller of \<^verbatim>\<open>json.Marshal\<close>.
\<close>

theorem json_Marshal_both_fails:
  assumes "Request m \<noteq> None" and "Response m \<noteq> None"
  shows "\<exists>err. snd (Message_MarshalJSON m) = Some err
      \<and> json_Marshal_Message m = Inl (MarshalerError err)
      \<and> (err = BothRequestAndResponse \<or> json_Marshal_jsonMessage (to_jsonMessage m) = Inl err)"
proof (cases "json_Marshal_jsonMessage (to_jsonMessage m)")
  case (Inl err)
  then have "Message_MarshalJSON m = ([], Some err)"
    by (simp add: Message_MarshalJSON_def Let_def)
  with Inl show ?thesis
    by (simp add: json_Marshal_Message_def marshalerEncoder_def)
next
  case (Inr data)
  from assms have "Check (to_jsonMessage m) = Some BothRequestAndResponse"
    by (simp add: Check_def to_jsonMessage_def)
  with Inr have "Message_MarshalJSON m = (data, Some BothRequestAndResponse)"
    by (simp add: Message_MarshalJSON_def Let_def)
  then show ?thesis
    by (simp add: json_Marshal_Message_def marshalerEncoder_def)
qed

theorem json_Marshal_both_fails_witness:
  \<open>Request \<lparr>Request = Some \<lparr>Method = ''m'', Params = []\<rparr>,
        Response = Some \<lparr>Result = Some ''1'', Error = None\<rparr>, ID = ''1''\<rparr> \<noteq> None
   \<and> Response \<lparr>Request = Some \<lparr>Method = ''m'', Params = []\<rparr>,
        Response = Some \<lparr>Result = Some ''1'', Error = None\<rparr>, ID = ''1''\<rparr> \<noteq> None
   \<and> json_Marshal_jsonMessage (to_jsonMessage \<lparr>Request = Some \<lparr>Method = ''m'', Params = []\<rparr>,
        Response = Some \<lparr>Result = Some ''1'', Error = None\<rparr>, ID = ''1''\<rparr>)
     = Inr ''{"method":"m","result":1,"id":1,"jsonrpc":"2.0"}''
   \<and> json_Marshal_Message \<lparr>Request = Some \<lparr>Method = ''m'', Params = []\<rparr>,
        Response = Some \<lparr>Result = Some ''1'', Error = None\<rparr>, ID = ''1''\<rparr>
     = Inl (MarshalerError BothRequestAndResponse)\<close>
proof -
  let ?m = "\<lparr>Request = Some \<lparr>Method = ''m'', Params = []\<rparr>,
        Response = Some \<lparr>Result = Some ''1'', Error = None\<rparr>, ID = ''1''\<rparr>"
  have ser: \<open>json_Marshal_jsonMessage (to_jsonMessage ?m)
      = Inr ''{"method":"m","result":1,"id":1,"jsonrpc":"2.0"}''\<close>
    by code_simp
  from json_Marshal_both_fails [of ?m] obtain err where
    e: "json_Marshal_Message ?m = Inl (MarshalerError err)"
    and c: "err = BothRequestAndResponse \<or> json_Marshal_jsonMessage (to_jsonMessage ?m) = Inl err"
    by auto
  from c ser have "err = BothRequestAndResponse" by simp
  with e ser show ?thesis by simp
qed

text \<open>
  A result that points to an empty raw message that is not nil cannot be serialized: the
  library finds no JSON value in what \<^verbatim>\<open>json.RawMessage.MarshalJSON\<close> returns.
\<close>

lemma json_Marshal_empty_result:
  \<open>json_Marshal_Message \<lparr>Request = None, Response = Some \<lparr>Result = Some [], Error = None\<rparr>, ID = ''1''\<rparr>
     = Inl (MarshalerError (MarshalerError SyntaxError))\<close>
  by code_simp

section \<open>Decoding, encoding and decoding again\<close>


text \<open>
  A response whose result is \<^verbatim>\<open>null\<close> does not survive the round trip at all: it
  decodes to a response without result, which is encoded without a \<^verbatim>\<open>result\<close> member
  and then refused by the decoder.
\<close>

lemma roundtrip_null_result:
  \<open>Message_UnmarshalJSON ''{"jsonrpc":"2.0","result":null,"id":1}''
     = Inr \<lparr>Request = None, Response = Some \<lparr>Result = None, Error = None\<rparr>, ID = ''1''\<rparr>
   \<and> Message_MarshalJSON \<lparr>Request = None, Response = Some \<lparr>Result = None, Error = None\<rparr>, ID = ''1''\<rparr>
     = (''{"id":1,"jsonrpc":"2.0"}'', None)
   \<and> Message_UnmarshalJSON ''{"id":1,"jsonrpc":"2.0"}'' = Inl NeitherRequestNorResponse\<close>
  by code_simp

subsection \<open>Steps of the scanner\<close>






subsection \<open>Cutting an object into its members\<close>























subsection \<open>Scanning an object that the encoder wrote\<close>
















subsection \<open>String literals that the encoder wrote\<close>


lemma utf8_size_bound: "utf8_size s \<le> 4"
  by (induction s rule: utf8_size.induct) (auto split: list.splits)






























subsection \<open>Unquoted strings are well-formed UTF-8\<close>
























subsection \<open>Numbers\<close>




















subsection \<open>What decoding guarantees\<close>


















subsection \<open>Decoding what the encoder wrote\<close>





















lemma quote_not_n: "quote_ch \<noteq> CHR ''n''"
  by (simp add: quote_ch_def)















subsection \<open>The round trip\<close>



end
